theory Spec2Isabelle
  imports Main "HOL-Library.AList" "HOL-Library.Sublist"
begin

section \<open>Migration of deprecated experiment logs\<close>

text \<open>
  The script \<^verbatim>\<open>misc/update_deprecated_exps.py\<close> converts two obsolete log formats into
  the current one.  Its functions are
  embedded below in the order of the source file: \<open>parse_tboard_files\<close>,
  \<open>modernize_exp_dir\<close>, \<open>parse_old_log\<close>, \<open>standardize_exp_dir\<close>.
  Exceptions are values of type \<open>error\<close>; the file system and everything the script
  prints, logs or hands to another module is a \<open>world\<close> that is passed along.
\<close>

subsection \<open>Python strings\<close>

text \<open>Decimal rendering of an integer inside an f-string.\<close>

definition digit_char :: "nat \<Rightarrow> char" where
  "digit_char d = ''0123456789'' ! d"

function show_nat :: "nat \<Rightarrow> string" where
  "show_nat n = (if n < 10 then [digit_char n] else show_nat (n div 10) @ [digit_char (n mod 10)])"
  by pat_completeness auto
termination
  by (relation "measure id") auto

declare show_nat.simps [simp del]

definition show_int :: "int \<Rightarrow> string" where
  "show_int i = (if i < 0 then CHR ''-'' # show_nat (nat (- i)) else show_nat (nat i))"

text \<open>\<open>s.startswith(sub)\<close> and the substring test \<open>sub in s\<close>.\<close>

fun starts_with :: "string \<Rightarrow> string \<Rightarrow> bool" where
  "starts_with s [] = True"
| "starts_with [] (c # sub) = False"
| "starts_with (d # s) (c # sub) = (d = c \<and> starts_with s sub)"

fun contains :: "string \<Rightarrow> string \<Rightarrow> bool" where
  "contains [] sub = (sub = [])"
| "contains (d # s) sub = (starts_with (d # s) sub \<or> contains s sub)"

text \<open>\<open>sep.join(xs)\<close>.\<close>

fun join :: "string \<Rightarrow> string list \<Rightarrow> string" where
  "join sep [] = []"
| "join sep [x] = x"
| "join sep (x # y # ys) = x @ sep @ join sep (y # ys)"

text \<open>\<open>s.split(c)\<close> for a separator of one character: never an empty list.\<close>

fun split :: "char \<Rightarrow> string \<Rightarrow> string list" where
  "split c [] = [[]]"
| "split c (d # s) =
     (if d = c then [] # split c s
      else (case split c s of [] \<Rightarrow> [[d]] | x # xs \<Rightarrow> (d # x) # xs))"

subsection \<open>Paths\<close>

text \<open>
  A \<open>pathlib.Path\<close> is modelled by its string \<open>str(p)\<close>.  The strings the script
  builds paths from (\<open>save_dir\<close>, the experiment keys, the manifest's time stamps) are
  taken in pathlib's normal form: non-empty, relative components without \<open>.\<close>, no
  doubled or trailing slash.  On such operands \<open>Path(s)\<close> and \<open>str(p)\<close> are the
  identity and \<open>p / c\<close> inserts one slash.
\<close>

definition pjoin :: "string \<Rightarrow> string \<Rightarrow> string" where
  "pjoin p c = p @ ''/'' @ c"

definition pname :: "string \<Rightarrow> string" where
  "pname p = rev (takeWhile (\<lambda>c. c \<noteq> CHR ''/'') (rev p))"

definition parent :: "string \<Rightarrow> string" where
  "parent p =
     (if CHR ''/'' \<notin> set p then ''.''
      else (let d = rev (tl (dropWhile (\<lambda>c. c \<noteq> CHR ''/'') (rev p)))
            in if d = [] then ''/'' else d))"

text \<open>\<open>p.stem\<close>: the name without its last suffix; a leading or a trailing dot is no suffix.\<close>

definition stem :: "string \<Rightarrow> string" where
  "stem p =
     (let name = pname p; ext = rev (takeWhile (\<lambda>c. c \<noteq> CHR ''.'') (rev name))
      in if CHR ''.'' \<in> set name \<and> ext \<noteq> [] \<and> Suc (length ext) < length name
         then take (length name - Suc (length ext)) name
         else name)"

subsection \<open>Errors, event records and files\<close>

datatype error =
    AssertionError string
  | KeyError string
  | IndexError
  | FileNotFoundError string
  | SameFileError
  | IsADirectoryError string
  | FileExistsError string
  | DebuggerTrap

text \<open>
  One entry of \<open>summary["summary"]["value"]\<close> after \<open>protobuf_to_dict\<close>: a dictionary
  in which each key may be absent.  The float under \<open>simple_value\<close> is carried by the
  text that the f-string renders for it; \<open>has_image\<close> says whether the key
  \<open>image\<close> is there.
\<close>

record tf_value =
  tag :: "string option"
  simple_value :: "string option"
  has_image :: bool

text \<open>
  One decoded event.  \<open>wall_time\<close> is carried by the text that
  \<open>time.strftime('%Y-%m-%d:%Hh%Mm%Ss', time.gmtime(...))\<close> renders for it.
  \<open>summary = None\<close>: the key is absent; \<open>Some None\<close>: the inner dictionary has no
  key \<open>value\<close>; \<open>Some (Some vs)\<close>: the list of values.
\<close>

record event =
  step :: "int option"
  wall_time :: "string option"
  summary :: "tf_value list option option"

text \<open>
  What the loop gets next: \<open>Rec d\<close> when \<open>tf.train.summary_iterator\<close> yields a
  message, \<open>d\<close> being the dictionary that line 38 decodes it to; or the
  \<open>DataLossError\<close> (with its message) that the iterator raises on a corrupted stream.
\<close>

datatype item = Rec event | DataLoss string

text \<open>
  Modelled from the documented behaviour of the libraries (the event format and
  \<open>protobuf_to_dict\<close> are not part of this repository): an event message of the stream
  and its decoding.  The format is proto3 and \<open>protobuf_to_dict\<close> keeps the fields that
  \<open>ListFields()\<close> lists: a scalar field at its default (\<open>step\<close> 0, \<open>wall_time\<close>
  0.0, an empty \<open>tag\<close>) and an empty repeated field (\<open>value\<close>) are not listed, so
  their keys are absent; the member that is set of the \<open>oneof\<close> of a value is listed.
  \<open>pb_wall_time = None\<close> stands for 0.0, \<open>pb_summary = None\<close> for an event that is
  not a summary.
\<close>

datatype pb_member = SimpleValue string | Image | OtherMember

record pb_value =
  pb_tag :: string
  pb_which :: pb_member

record pb_event =
  pb_step :: int
  pb_wall_time :: "string option"
  pb_summary :: "pb_value list option"

definition value_to_dict :: "pb_value \<Rightarrow> tf_value" where
  "value_to_dict v =
     \<lparr>tag = (if pb_tag v = [] then None else Some (pb_tag v)),
      simple_value = (case pb_which v of SimpleValue x \<Rightarrow> Some x | _ \<Rightarrow> None),
      has_image = (case pb_which v of Image \<Rightarrow> True | _ \<Rightarrow> False)\<rparr>"

definition protobuf_to_dict :: "pb_event \<Rightarrow> event" where
  "protobuf_to_dict m =
     \<lparr>step = (if pb_step m = 0 then None else Some (pb_step m)),
      wall_time = pb_wall_time m,
      summary = (case pb_summary m of
                   None \<Rightarrow> None
                 | Some [] \<Rightarrow> Some None
                 | Some (v # vs) \<Rightarrow> Some (Some (map value_to_dict (v # vs))))\<rparr>"

text \<open>
  A file is opaque bytes; the model holds the two decodings the script asks for: the lines
  of \<open>f.read().splitlines()\<close> and the items the loop gets from the summary iterator.
\<close>

record fdata =
  text_lines :: "string list"
  tf_events :: "item list"

record eval_args =
  config :: string
  device :: string
  mini_eval :: int
  resume :: string

datatype effect =
    Print string
  | Mkdir string
  | CopyFile string string
  | Unlink string
  | SetupLogging string
  | LogInfo string string
  | Evaluation eval_args string

text \<open>
  The world: the files (an association list from path to content, so that a directory can
  be listed), the directories, and the effects in the order they happened.  The calls
  into other modules (\<open>setup_logging\<close>, \<open>logger.info\<close>, \<open>ConfigParser\<close>,
  \<open>evaluation\<close>) are recorded as effects with their arguments; what they do to the
  file system is outside this script.
\<close>

record world =
  files :: "(string \<times> fdata) list"
  dirs :: "string list"
  trace :: "effect list"

definition emit :: "effect list \<Rightarrow> world \<Rightarrow> world" where
  "emit es w = w\<lparr>trace := trace w @ es\<rparr>"

text \<open>\<open>p.exists()\<close> holds of a file and of a directory.\<close>

definition is_file :: "string \<Rightarrow> world \<Rightarrow> bool" where
  "is_file p w = (map_of (files w) p \<noteq> None)"

definition exists :: "string \<Rightarrow> world \<Rightarrow> bool" where
  "exists p w = (is_file p w \<or> p \<in> set (dirs w))"

subsection \<open>\<open>parse_tboard_files\<close>\<close>

text \<open>The list comprehension \<open>[f"{x['tag']}: {x['simple_value']}" for x in value]\<close>.\<close>

fun vals_of :: "tf_value list \<Rightarrow> error + string list" where
  "vals_of [] = Inr []"
| "vals_of (x # xs) =
     (case tag x of
        None \<Rightarrow> Inl (KeyError ''tag'')
      | Some t \<Rightarrow>
          (case simple_value x of
             None \<Rightarrow> Inl (KeyError ''simple_value'')
           | Some v \<Rightarrow>
               (case vals_of xs of
                  Inl e \<Rightarrow> Inl e
                | Inr vals \<Rightarrow> Inr ((t @ '': '' @ v) # vals))))"

text \<open>
  The body of the loop after the cap test, lines 41 to 56: \<open>Inr None\<close> when the record
  adds no row, \<open>Inr (Some row)\<close> when it adds one, \<open>Inl e\<close> when it raises.  The last
  branch is \<open>ipdb.set_trace()\<close>, which hands the run to an operator: the function does
  not go on by itself.
\<close>

definition event_row :: "event \<Rightarrow> error + string option" where
  "event_row ev =
     (case step ev of
        None \<Rightarrow> Inr None
      | Some st \<Rightarrow>
          (case wall_time ev of
             None \<Rightarrow> Inl (KeyError ''wall_time'')
           | Some ts \<Rightarrow>
               (case summary ev of
                  None \<Rightarrow> Inr None
                | Some None \<Rightarrow> Inl (KeyError ''value'')
                | Some (Some []) \<Rightarrow> Inr None
                | Some (Some (v0 # vs)) \<Rightarrow>
                    if simple_value v0 \<noteq> None then
                      (case vals_of (v0 # vs) of
                         Inl e \<Rightarrow> Inl e
                       | Inr vals \<Rightarrow>
                           if st mod 2000 = 0 \<or> tag v0 \<noteq> Some ''train/loss''
                           then Inr (Some (ts @ '' step: '' @ show_int st @ '', '' @ join '','' vals))
                           else Inr None)
                    else if has_image v0 then Inr None
                    else Inl DebuggerTrap)))"

text \<open>
  How the \<open>for\<close> loop ends, with \<open>count\<close> and \<open>gen_log\<close> at that moment: the
  iterator is exhausted or the cap breaks the loop (\<open>Done\<close>), the iterator raises
  \<open>DataLossError\<close> (\<open>Lost\<close>, with the message), or the body raises (\<open>Failed\<close>).
\<close>

datatype loop_end =
    Done nat "string list"
  | Lost string nat "string list"
  | Failed error nat "string list"

fun summary_loop :: "item list \<Rightarrow> nat \<Rightarrow> string list \<Rightarrow> loop_end" where
  "summary_loop [] count gen_log = Done count gen_log"
| "summary_loop (DataLoss msg # rest) count gen_log = Lost msg count gen_log"
| "summary_loop (Rec ev # rest) count gen_log =
     (let count = count + 1 in
      if count > 1000 then Done count gen_log
      else (case event_row ev of
              Inl e \<Rightarrow> Failed e count gen_log
            | Inr None \<Rightarrow> summary_loop rest count gen_log
            | Inr (Some row) \<Rightarrow> summary_loop rest count (gen_log @ [row])))"

text \<open>\<open>Path(rel_dir).glob("events.out.tfevents.*")\<close>: the files of that directory whose name starts so.\<close>

definition glob_tfevents :: "string \<Rightarrow> world \<Rightarrow> (string \<times> fdata) list" where
  "glob_tfevents rel_dir w =
     filter (\<lambda>(p, d). parent p = rel_dir \<and> starts_with (pname p) ''events.out.tfevents.'') (files w)"

text \<open>
  Every row appended to \<open>gen_log\<close> is printed as well, so the prints of the loop are the
  rows after the header line.
\<close>

definition parse_tboard_files :: "string \<Rightarrow> world \<Rightarrow> (error + string list) \<times> world" where
  "parse_tboard_files rel_dir w =
     (let tboard_files = glob_tfevents rel_dir w in
      if length tboard_files \<noteq> 1 then (Inl (AssertionError ''expected a single tensorboard file''), w)
      else
        (let tboard_file_path = fst (hd tboard_files);
             gen_log = [''This log was generated from tensorboard file '' @ pname tboard_file_path]
         in case summary_loop (tf_events (snd (hd tboard_files))) 0 gen_log of
              Done count gen_log \<Rightarrow>
                (Inr gen_log,
                 emit (map Print (tl gen_log) @
                       [Print (''parsed '' @ show_nat count @ '' summaries'')]) w)
            | Lost msg count gen_log \<Rightarrow>
                (Inr gen_log,
                 emit (map Print (tl gen_log) @
                       [Print (msg @ '' Could not parse any further information''),
                        Print (''parsed '' @ show_nat count @ '' summaries'')]) w)
            | Failed e count gen_log \<Rightarrow> (Inl e, emit (map Print (tl gen_log)) w)))"

subsection \<open>File operations\<close>

text \<open>Running one statement after another: an exception ends the run in the world reached so far.\<close>

definition and_then ::
  "error option \<times> world \<Rightarrow> (world \<Rightarrow> error option \<times> world) \<Rightarrow> error option \<times> world" where
  "and_then r f = (case r of (None, w) \<Rightarrow> f w | (Some e, w) \<Rightarrow> (Some e, w))"

text \<open>A directory together with its ancestors, outermost first.\<close>

definition lineage :: "string \<Rightarrow> string list" where
  "lineage p = map (join ''/'') (tl (prefixes (split CHR ''/'' p)))"

text \<open>\<open>p.mkdir(exist_ok=True, parents=True)\<close>: fails only where a file is in the way.\<close>

definition mkdir_parents :: "string \<Rightarrow> world \<Rightarrow> error option \<times> world" where
  "mkdir_parents p w =
     (case filter (\<lambda>d. is_file d w) (lineage p) of
        d # ds \<Rightarrow> (Some (FileExistsError d), w)
      | [] \<Rightarrow>
          (None, emit [Mkdir p]
                   (w\<lparr>dirs := dirs w @ filter (\<lambda>d. d \<notin> set (dirs w)) (lineage p)\<rparr>)))"

text \<open>\<open>shutil.copyfile(src, dst)\<close>.\<close>

definition copyfile :: "string \<Rightarrow> string \<Rightarrow> world \<Rightarrow> error option \<times> world" where
  "copyfile src dst w =
     (if src = dst then (Some SameFileError, w)
      else (case map_of (files w) src of
              None \<Rightarrow>
                (Some (if src \<in> set (dirs w) then IsADirectoryError src
                       else FileNotFoundError src), w)
            | Some d \<Rightarrow>
                if dst \<in> set (dirs w) then (Some (IsADirectoryError dst), w)
                else if parent dst \<notin> set (dirs w) then (Some (FileNotFoundError dst), w)
                else (None, emit [CopyFile src dst]
                               (w\<lparr>files := AList.update dst d (files w)\<rparr>))))"

text \<open>\<open>p.unlink()\<close>.\<close>

definition unlink :: "string \<Rightarrow> world \<Rightarrow> error option \<times> world" where
  "unlink p w =
     (if is_file p w
      then (None, emit [Unlink p] (w\<lparr>files := AList.delete p (files w)\<rparr>))
      else (Some (if p \<in> set (dirs w) then IsADirectoryError p else FileNotFoundError p), w))"

subsection \<open>\<open>modernize_exp_dir\<close>\<close>

text \<open>An entry of the checkpoint manifest: a dictionary with the keys \<open>timestamp\<close> and \<open>epoch\<close>.\<close>

record ckpt_entry =
  timestamp :: "string option"
  epoch :: "int option"

text \<open>The body of the loop, for one experiment \<open>key\<close>.\<close>

definition modernize_exp ::
  "(string \<Rightarrow> ckpt_entry option) \<Rightarrow> string \<Rightarrow> bool \<Rightarrow> string \<Rightarrow> world
     \<Rightarrow> error option \<times> world" where
  "modernize_exp checkpoints save_dir refresh key w0 =
     (case checkpoints key of
        None \<Rightarrow> (Some (KeyError key), w0)
      | Some entry \<Rightarrow>
     (case timestamp entry of
        None \<Rightarrow> (Some (KeyError ''timestamp''), w0)
      | Some rel_dir \<Rightarrow>
     (let ts = last (split CHR ''/'' rel_dir);
          src_config = pjoin rel_dir ''config.json'';
          src_model = pjoin rel_dir ''model_best.pth'';
          dest_log = pjoin (pjoin (pjoin (pjoin save_dir ''log'') key) ts) ''info.log'';
          config_path = pjoin (pjoin (pjoin (pjoin save_dir ''models'') key) ts) ''config.json'';
          model_path = pjoin (pjoin (pjoin (pjoin save_dir ''models'') key) ts) ''model_best.pth''
      in
      and_then (mkdir_parents (parent config_path) w0) (\<lambda>w.
      and_then
        (if \<not> exists config_path w \<or> refresh
         then copyfile src_config config_path
                (emit [Print (''copying config: '' @ src_config @ '' -> '' @ config_path)] w)
         else (None, emit [Print (''transferred config found at '' @ config_path @ '', skipping...'')] w))
        (\<lambda>w.
      and_then
        (if \<not> exists model_path w \<or> refresh
         then copyfile src_model model_path
                (emit [Print (''copying model: '' @ src_model @ '' -> '' @ model_path)] w)
         else (None, emit [Print (''transferred model found at '' @ model_path @ '', skipping...'')] w))
        (\<lambda>w.
      if \<not> exists dest_log w \<or> refresh
      then
        (case parse_tboard_files rel_dir w of
           (Inl e, w) \<Rightarrow> (Some e, w)
         | (Inr generated_log, w) \<Rightarrow>
             and_then (mkdir_parents (parent dest_log) w) (\<lambda>w.
               (let best_ckpt_path = pjoin rel_dir ''model_best.pth'';
                    eval_config = \<lparr>config = config_path, device = ''0'', mini_eval = 1,
                                   resume = best_ckpt_path\<rparr>
                in (None,
                    emit ([SetupLogging (parent dest_log)] @
                          map (LogInfo ''tboard-parser'') generated_log @
                          [Evaluation eval_config ''tboard-parser'']) w))))
      else (None, emit [Print (''generated log found at '' @ dest_log @ '', skipping...'')] w)))))))"

fun modernize_exp_dir ::
  "string list \<Rightarrow> (string \<Rightarrow> ckpt_entry option) \<Rightarrow> string \<Rightarrow> bool \<Rightarrow> world
     \<Rightarrow> error option \<times> world" where
  "modernize_exp_dir [] checkpoints save_dir refresh w = (None, w)"
| "modernize_exp_dir (key # experiments) checkpoints save_dir refresh w =
     and_then (modernize_exp checkpoints save_dir refresh key w)
              (modernize_exp_dir experiments checkpoints save_dir refresh)"

subsection \<open>\<open>parse_old_log\<close>\<close>

text \<open>
  \<open>presence\<close> is the list of booleans of line 120, \<open>sum(presence)\<close> the number of its
  true entries and \<open>np.where(presence)[0].item()\<close> the index of the only one.  Reading
  \<open>log[pos + 1]\<close> past the end raises \<open>IndexError\<close>; \<open>offset\<close> is a boolean that
  the slice bound counts as 0 or 1.
\<close>

definition parse_old_log :: "string \<Rightarrow> string \<Rightarrow> int \<Rightarrow> world \<Rightarrow> error + string list" where
  "parse_old_log log_path config_path fixed_epochs w =
     (case map_of (files w) config_path of
        None \<Rightarrow> Inl (FileNotFoundError config_path)
      | Some cf \<Rightarrow>
     (case map_of (files w) log_path of
        None \<Rightarrow> Inl (FileNotFoundError log_path)
      | Some lf \<Rightarrow>
     (let config = text_lines cf;
          log = text_lines lf;
          tag = ''checkpoint-epoch'' @ show_int fixed_epochs @ ''.pth'';
          presence = map (\<lambda>row. contains row tag \<and> contains row ''trainer'') log
      in
      if length (filter id presence) \<noteq> 1
      then Inl (AssertionError ''expected single occurence of log tag'')
      else
        (let pos = length (takeWhile Not presence);
             ts = stem (parent log_path);
             gen_log = [''This log was generated from an existing log for experiemnt '' @ ts]
                       @ [''Launching experiment with config:'']
         in if length log \<le> pos + 1 then Inl IndexError
            else (let offset = contains (log ! (pos + 1)) ''Training took''
                  in Inr (gen_log @ config @ take (pos + 1 + (if offset then 1 else 0)) log))))))"

subsection \<open>\<open>standardize_exp_dir\<close>\<close>

definition standardize_exp ::
  "string \<Rightarrow> (string \<Rightarrow> ckpt_entry option) \<Rightarrow> bool \<Rightarrow> string \<Rightarrow> world
     \<Rightarrow> error option \<times> world" where
  "standardize_exp save_dir checkpoints refresh key w0 =
     (case checkpoints key of
        None \<Rightarrow> (Some (KeyError key), w0)
      | Some entry \<Rightarrow>
     (case timestamp entry of
        None \<Rightarrow> (Some (KeyError ''timestamp''), w0)
      | Some ts \<Rightarrow>
     (case epoch entry of
        None \<Rightarrow> (Some (KeyError ''epoch''), w0)
      | Some ep \<Rightarrow>
     (let log_path = pjoin (pjoin (pjoin (pjoin save_dir ''log'') key) ts) ''info.log'';
          config_path = pjoin (pjoin (pjoin (pjoin save_dir ''models'') key) ts) ''config.json'';
          ckpt_name = ''checkpoint-epoch'' @ show_int ep @ ''.pth'';
          model_path = pjoin (pjoin (pjoin (pjoin save_dir ''models'') key) ts) ckpt_name
      in
      if \<not> exists log_path w0 then (Some (AssertionError ''log was not found''), w0)
      else if \<not> exists config_path w0 then (Some (AssertionError ''config was not found''), w0)
      else if \<not> exists model_path w0 then (Some (AssertionError ''model was not found''), w0)
      else
        (let backup_log = log_path @ ''.backup'' in
         if \<not> exists backup_log w0 \<or> refresh
         then
           and_then (copyfile log_path backup_log w0) (\<lambda>w.
             (case parse_old_log backup_log config_path ep w of
                Inl e \<Rightarrow> (Some e, w)
              | Inr generated_log \<Rightarrow>
                  and_then (unlink log_path w) (\<lambda>w.
                    (let eval_config = \<lparr>config = config_path, device = ''3'', mini_eval = 1,
                                        resume = model_path\<rparr>
                     in (None,
                         emit ([SetupLogging (parent log_path)] @
                               map (LogInfo ''log-gen'') generated_log @
                               [Evaluation eval_config ''log-gen'']) w)))))
         else (None, emit [Print (''backup log found at '' @ backup_log @ '', skipping...'')] w0))))))"

fun standardize_exp_dir ::
  "string list \<Rightarrow> string \<Rightarrow> (string \<Rightarrow> ckpt_entry option) \<Rightarrow> bool \<Rightarrow> world
     \<Rightarrow> error option \<times> world" where
  "standardize_exp_dir [] save_dir checkpoints refresh w = (None, w)"
| "standardize_exp_dir (key # experiments) save_dir checkpoints refresh w =
     and_then (standardize_exp save_dir checkpoints refresh key w)
              (standardize_exp_dir experiments save_dir checkpoints refresh)"

subsection \<open>What \<open>parse_tboard_files\<close> returns, said without the loop\<close>

text \<open>The value the function returns for each way the loop can end.\<close>

definition returned :: "loop_end \<Rightarrow> error + string list" where
  "returned r = (case r of Done count gen_log \<Rightarrow> Inr gen_log
                  | Lost msg count gen_log \<Rightarrow> Inr gen_log
                  | Failed e count gen_log \<Rightarrow> Inl e)"

text \<open>The records the iterator yields before it raises or ends.\<close>

fun records :: "item list \<Rightarrow> event list" where
  "records [] = []"
| "records (DataLoss msg # rest) = []"
| "records (Rec ev # rest) = ev # records rest"

text \<open>The loop body run over a list of records, stopping at the first exception.\<close>

fun run_events :: "event list \<Rightarrow> string list \<Rightarrow> error + string list" where
  "run_events [] gen_log = Inr gen_log"
| "run_events (ev # evs) gen_log =
     (case event_row ev of
        Inl e \<Rightarrow> Inl e
      | Inr None \<Rightarrow> run_events evs gen_log
      | Inr (Some row) \<Rightarrow> run_events evs (gen_log @ [row]))"

text \<open>
  A record the loop body accepts: if it has a step it has a wall time, and its values are
  absent, empty, scalars that all carry \<open>tag\<close> and \<open>simple_value\<close>, or led by an image.
\<close>

definition wf_event :: "event \<Rightarrow> bool" where
  "wf_event ev =
     (step ev \<noteq> None \<longrightarrow>
        wall_time ev \<noteq> None \<and>
        (case summary ev of
           None \<Rightarrow> True
         | Some None \<Rightarrow> False
         | Some (Some []) \<Rightarrow> True
         | Some (Some (v0 # vs)) \<Rightarrow>
             if simple_value v0 \<noteq> None
             then list_all (\<lambda>x. tag x \<noteq> None \<and> simple_value x \<noteq> None) (v0 # vs)
             else has_image v0))"

text \<open>
  The subsampling policy in the words of the specification: a scalar-valued record with a
  step is written when the step is a multiple of 2000 or its (first) tag is not
  \<open>train/loss\<close>; the line holds the time stamp, the step and every tag/value pair.
\<close>

definition is_scalar :: "event \<Rightarrow> bool" where
  "is_scalar ev = (case summary ev of Some (Some (v0 # vs)) \<Rightarrow> simple_value v0 \<noteq> None | _ \<Rightarrow> False)"

definition first_tag :: "event \<Rightarrow> string option" where
  "first_tag ev = (case summary ev of Some (Some (v0 # vs)) \<Rightarrow> tag v0 | _ \<Rightarrow> None)"

definition spec_emits :: "event \<Rightarrow> bool" where
  "spec_emits ev =
     (is_scalar ev \<and>
      (case step ev of
         None \<Rightarrow> False
       | Some st \<Rightarrow> st mod 2000 = 0 \<or> first_tag ev \<noteq> Some ''train/loss''))"

definition spec_row :: "event \<Rightarrow> string" where
  "spec_row ev =
     the (wall_time ev) @ '' step: '' @ show_int (the (step ev)) @ '', '' @
     join '','' (map (\<lambda>x. the (tag x) @ '': '' @ the (simple_value x)) (the (the (summary ev))))"

definition header :: "string \<Rightarrow> string" where
  "header p = ''This log was generated from tensorboard file '' @ pname p"


subsection \<open>Sample inputs\<close>

text \<open>
  A decoded scalar record with one value, the scalar message with one value, a source
  directory holding one event file with a given stream beside its config and its model,
  and streams: \<open>mixed_stream\<close> and \<open>three_steps\<close> are decoded from messages,
  \<open>three_steps\<close> being the dominant tag at steps 0, 2000 and 4000; \<open>raising_stream\<close>
  holds a kept scalar record followed by the decoding of a message whose wall time is 0.0.
\<close>

definition scalar_event :: "int \<Rightarrow> string \<Rightarrow> event" where
  "scalar_event st tg =
     \<lparr>step = Some st, wall_time = Some ''2019-07-01:12h00m00s'',
      summary = Some (Some [\<lparr>tag = Some tg, simple_value = Some ''0.5'', has_image = False\<rparr>])\<rparr>"

definition tb_world :: "item list \<Rightarrow> world" where
  "tb_world its =
     \<lparr>files = [(''old/run1/events.out.tfevents.1561982400'', \<lparr>text_lines = [], tf_events = its\<rparr>),
               (''old/run1/config.json'', \<lparr>text_lines = [''{}''], tf_events = []\<rparr>),
               (''old/run1/model_best.pth'', \<lparr>text_lines = [''weights''], tf_events = []\<rparr>)],
      dirs = [''old'', ''old/run1''],
      trace = []\<rparr>"

definition scalar_msg :: "int \<Rightarrow> string \<Rightarrow> pb_event" where
  "scalar_msg st tg =
     \<lparr>pb_step = st, pb_wall_time = Some ''2019-07-01:12h00m00s'',
      pb_summary = Some [\<lparr>pb_tag = tg, pb_which = SimpleValue ''0.5''\<rparr>]\<rparr>"

definition mixed_stream :: "item list" where
  "mixed_stream =
     map (\<lambda>m. Rec (protobuf_to_dict m))
       [scalar_msg 0 ''train/loss'', scalar_msg 0 ''val/acc'',
        scalar_msg 100 ''train/loss'', scalar_msg 100 ''val/acc'',
        scalar_msg 2000 ''train/loss'', scalar_msg 2100 ''val/acc'',
        scalar_msg 3900 ''train/loss'', scalar_msg 4000 ''train/loss'']"

definition three_steps :: "item list" where
  "three_steps =
     map (\<lambda>m. Rec (protobuf_to_dict m))
       [scalar_msg 0 ''train/loss'', scalar_msg 2000 ''train/loss'', scalar_msg 4000 ''train/loss'']"

definition raising_stream :: "item list" where
  "raising_stream =
     [Rec (scalar_event 2000 ''train/loss''),
      Rec (protobuf_to_dict
             \<lparr>pb_step = 2100, pb_wall_time = None,
              pb_summary = Some [\<lparr>pb_tag = ''train/loss'', pb_which = SimpleValue ''0.5''\<rparr>]\<rparr>)]"

definition lossy_stream :: "item list" where
  "lossy_stream =
     [Rec (scalar_event 2000 ''train/loss''), Rec (scalar_event 2100 ''train/loss''),
      DataLoss ''truncated record at offset 4096'', Rec (scalar_event 4000 ''train/loss'')]"

definition clean_stream :: "item list" where
  "clean_stream = [Rec (scalar_event 2000 ''train/loss''), Rec (scalar_event 2100 ''train/loss'')]"

subsection \<open>What \<open>parse_old_log\<close> looks for and prepends\<close>

text \<open>
  A marker line for an epoch: it contains the checkpoint tag and the token \<open>trainer\<close>.
  \<open>provenance\<close> are the two lines that \<open>gen_log\<close> starts with.
\<close>

definition is_marker :: "int \<Rightarrow> string \<Rightarrow> bool" where
  "is_marker fixed_epochs row =
     (contains row (''checkpoint-epoch'' @ show_int fixed_epochs @ ''.pth'') \<and> contains row ''trainer'')"

definition provenance :: "string \<Rightarrow> string list" where
  "provenance log_path =
     [''This log was generated from an existing log for experiemnt '' @ stem (parent log_path),
      ''Launching experiment with config:'']"

text \<open>
  A migrated tree with one experiment, its log given by its lines, and four log lines: an
  epoch summary, the line of the checkpoint of epoch 100, the timing summary, and a line
  of an epoch that overran.
\<close>

definition std_world :: "string list \<Rightarrow> world" where
  "std_world log =
     \<lparr>files =
        [(''data/saved/log/exp2/2019-07-01_12-00-00/info.log'', \<lparr>text_lines = log, tf_events = []\<rparr>),
         (''data/saved/models/exp2/2019-07-01_12-00-00/config.json'',
            \<lparr>text_lines = [''{'', ''}''], tf_events = []\<rparr>),
         (''data/saved/models/exp2/2019-07-01_12-00-00/checkpoint-epoch100.pth'',
            \<lparr>text_lines = [''weights''], tf_events = []\<rparr>)],
      dirs = [''data'', ''data/saved'', ''data/saved/log'', ''data/saved/log/exp2'',
              ''data/saved/log/exp2/2019-07-01_12-00-00'', ''data/saved/models'',
              ''data/saved/models/exp2'', ''data/saved/models/exp2/2019-07-01_12-00-00''],
      trace = []\<rparr>"

definition line_epoch :: string where "line_epoch = ''trainer - INFO - epoch: 100''"
definition line_marker :: string where
  "line_marker = ''trainer - INFO - Saving checkpoint: checkpoint-epoch100.pth ...''"
definition line_took :: string where "line_took = ''Training took 01h30m''"
definition line_overrun :: string where "line_overrun = ''trainer - INFO - epoch: 101''"

subsection \<open>Notions for the two pipelines\<close>

text \<open>
  \<open>grows w w'\<close>: every file of \<open>w\<close> is in \<open>w'\<close> with the same content, every
  directory of \<open>w\<close> is in \<open>w'\<close>, and each copy made on the way from \<open>w\<close> to
  \<open>w'\<close> went to a path that did not exist in \<open>w\<close>.
\<close>

definition grows :: "world \<Rightarrow> world \<Rightarrow> bool" where
  "grows w w' =
     ((\<forall>p d. map_of (files w) p = Some d \<longrightarrow> map_of (files w') p = Some d) \<and>
      set (dirs w) \<subseteq> set (dirs w') \<and>
      (\<exists>es. trace w' = trace w @ es \<and>
            (\<forall>src dst. CopyFile src dst \<in> set es \<longrightarrow> \<not> exists dst w)))"

text \<open>
  The statements of \<open>modernize_exp_dir\<close> by name, for the proofs: the guarded copy of
  lines 75 to 79 and 82 to 86, and the log generation with the evaluation of lines 88 to
  106.  \<open>modernize_exp_steps\<close> shows that the loop body is their sequence.
\<close>

definition copy_step ::
  "bool \<Rightarrow> string \<Rightarrow> string \<Rightarrow> string \<Rightarrow> string \<Rightarrow> world \<Rightarrow> error option \<times> world" where
  "copy_step refresh copying skipping src dst w =
     (if \<not> exists dst w \<or> refresh
      then copyfile src dst (emit [Print copying] w)
      else (None, emit [Print skipping] w))"

definition log_step :: "bool \<Rightarrow> string \<Rightarrow> string \<Rightarrow> string \<Rightarrow> world \<Rightarrow> error option \<times> world" where
  "log_step refresh rel_dir dest_log config_path w =
     (if \<not> exists dest_log w \<or> refresh
      then
        (case parse_tboard_files rel_dir w of
           (Inl e, w) \<Rightarrow> (Some e, w)
         | (Inr generated_log, w) \<Rightarrow>
             and_then (mkdir_parents (parent dest_log) w) (\<lambda>w.
               (None,
                emit ([SetupLogging (parent dest_log)] @
                      map (LogInfo ''tboard-parser'') generated_log @
                      [Evaluation \<lparr>config = config_path, device = ''0'', mini_eval = 1,
                                   resume = pjoin rel_dir ''model_best.pth''\<rparr> ''tboard-parser'']) w)))
      else (None, emit [Print (''generated log found at '' @ dest_log @ '', skipping...'')] w))"

text \<open>
  A path of the canonical layout: \<open>save_dir / kind / key / timestamp / name\<close>.
\<close>

definition canonical :: "string \<Rightarrow> string \<Rightarrow> string \<Rightarrow> string \<Rightarrow> string \<Rightarrow> string" where
  "canonical save_dir kind key ts name = pjoin (pjoin (pjoin (pjoin save_dir kind) key) ts) name"

text \<open>
  A manifest with a deprecated experiment \<open>exp1\<close> and a non-standard one \<open>exp2\<close>,
  and a world in which the destination config of \<open>exp1\<close> exists already, with a
  content of its own.
\<close>

definition sample_ckpts :: "string \<Rightarrow> ckpt_entry option" where
  "sample_ckpts key =
     (if key = ''exp1'' then Some \<lparr>timestamp = Some ''old/run1'', epoch = None\<rparr>
      else if key = ''exp2'' then Some \<lparr>timestamp = Some ''2019-07-01_12-00-00'', epoch = Some 100\<rparr>
      else None)"

definition stale_world :: world where
  "stale_world =
     \<lparr>files =
        [(''old/run1/events.out.tfevents.1561982400'', \<lparr>text_lines = [], tf_events = clean_stream\<rparr>),
         (''old/run1/config.json'', \<lparr>text_lines = [''{}''], tf_events = []\<rparr>),
         (''old/run1/model_best.pth'', \<lparr>text_lines = [''weights''], tf_events = []\<rparr>),
         (''data/saved/models/exp1/run1/config.json'', \<lparr>text_lines = [''stale''], tf_events = []\<rparr>)],
      dirs = [''old'', ''old/run1'', ''data'', ''data/saved'', ''data/saved/models'',
              ''data/saved/models/exp1'', ''data/saved/models/exp1/run1''],
      trace = []\<rparr>"

subsection \<open>Notions for re-runs and evaluations\<close>

text \<open>
  The effects of a run that does nothing: messages, and \<open>mkdir\<close> on a directory that is
  there.
\<close>

definition quiet :: "effect \<Rightarrow> bool" where
  "quiet e = (case e of Print s \<Rightarrow> True | Mkdir p \<Rightarrow> True | _ \<Rightarrow> False)"

text \<open>
  A well-formed tree: the directory of every file, with all its ancestors, is a directory,
  and no directory is also a file.
\<close>

definition wf_tree :: "world \<Rightarrow> bool" where
  "wf_tree w =
     (list_all (\<lambda>(p, d). list_all (\<lambda>a. a \<in> set (dirs w)) (lineage (parent p))) (files w) \<and>
      list_all (\<lambda>d. \<not> is_file d w) (dirs w))"

text \<open>
  What the first run of each pipeline leaves for an experiment: for \<open>modernize\<close> the
  copied config, the copied model and the generated log; for \<open>standardize\<close> the backup
  of the log.  \<open>standardize_ready\<close> are the three files the pipeline asserts.
\<close>

definition modernized :: "(string \<Rightarrow> ckpt_entry option) \<Rightarrow> string \<Rightarrow> string \<Rightarrow> world \<Rightarrow> bool" where
  "modernized checkpoints save_dir key w =
     (case checkpoints key of
        None \<Rightarrow> False
      | Some entry \<Rightarrow>
          (case timestamp entry of
             None \<Rightarrow> False
           | Some rel_dir \<Rightarrow>
               (let ts = last (split CHR ''/'' rel_dir) in
                is_file (canonical save_dir ''models'' key ts ''config.json'') w \<and>
                is_file (canonical save_dir ''models'' key ts ''model_best.pth'') w \<and>
                is_file (canonical save_dir ''log'' key ts ''info.log'') w)))"

definition backed_up :: "string \<Rightarrow> (string \<Rightarrow> ckpt_entry option) \<Rightarrow> string \<Rightarrow> world \<Rightarrow> bool" where
  "backed_up save_dir checkpoints key w =
     (case checkpoints key of
        None \<Rightarrow> False
      | Some entry \<Rightarrow>
          (case (timestamp entry, epoch entry) of
             (Some ts, Some ep) \<Rightarrow> exists (canonical save_dir ''log'' key ts ''info.log'' @ ''.backup'') w
           | _ \<Rightarrow> False))"

definition standardize_ready :: "string \<Rightarrow> (string \<Rightarrow> ckpt_entry option) \<Rightarrow> string \<Rightarrow> world \<Rightarrow> bool" where
  "standardize_ready save_dir checkpoints key w =
     (case checkpoints key of
        None \<Rightarrow> False
      | Some entry \<Rightarrow>
          (case (timestamp entry, epoch entry) of
             (Some ts, Some ep) \<Rightarrow>
               exists (canonical save_dir ''log'' key ts ''info.log'') w \<and>
               exists (canonical save_dir ''models'' key ts ''config.json'') w \<and>
               exists (canonical save_dir ''models'' key ts (''checkpoint-epoch'' @ show_int ep @ ''.pth'')) w
           | _ \<Rightarrow> False))"

text \<open>
  The branch of \<open>standardize_exp_dir\<close> that migrates one log, lines 150 to 165, by name;
  \<open>standardize_exp_steps\<close> shows how the loop body reaches it.
\<close>

definition migrate_step :: "string \<Rightarrow> string \<Rightarrow> string \<Rightarrow> int \<Rightarrow> world \<Rightarrow> error option \<times> world" where
  "migrate_step log_path config_path model_path ep w0 =
     and_then (copyfile log_path (log_path @ ''.backup'') w0) (\<lambda>w.
       (case parse_old_log (log_path @ ''.backup'') config_path ep w of
          Inl e \<Rightarrow> (Some e, w)
        | Inr generated_log \<Rightarrow>
            and_then (unlink log_path w) (\<lambda>w.
              (None,
               emit ([SetupLogging (parent log_path)] @
                     map (LogInfo ''log-gen'') generated_log @
                     [Evaluation \<lparr>config = config_path, device = ''3'', mini_eval = 1,
                                  resume = model_path\<rparr> ''log-gen'']) w))))"

text \<open>
  The tree after a first \<open>modernize\<close> run over \<open>exp1\<close> (with the log file the logger
  wrote), and the tree after a first \<open>standardize\<close> run over \<open>exp2\<close>.
\<close>

definition done_world :: world where
  "done_world =
     \<lparr>files =
        [(''old/run1/events.out.tfevents.1561982400'', \<lparr>text_lines = [], tf_events = clean_stream\<rparr>),
         (''old/run1/config.json'', \<lparr>text_lines = [''{}''], tf_events = []\<rparr>),
         (''old/run1/model_best.pth'', \<lparr>text_lines = [''weights''], tf_events = []\<rparr>),
         (''data/saved/models/exp1/run1/config.json'', \<lparr>text_lines = [''{}''], tf_events = []\<rparr>),
         (''data/saved/models/exp1/run1/model_best.pth'', \<lparr>text_lines = [''weights''], tf_events = []\<rparr>),
         (''data/saved/log/exp1/run1/info.log'',
            \<lparr>text_lines = [''This log was generated from tensorboard file events.out.tfevents.1561982400''],
             tf_events = []\<rparr>)],
      dirs = [''old'', ''old/run1'', ''data'', ''data/saved'', ''data/saved/models'',
              ''data/saved/models/exp1'', ''data/saved/models/exp1/run1'', ''data/saved/log'',
              ''data/saved/log/exp1'', ''data/saved/log/exp1/run1''],
      trace = []\<rparr>"

definition backed_world :: world where
  "backed_world =
     \<lparr>files =
        [(''data/saved/log/exp2/2019-07-01_12-00-00/info.log'',
            \<lparr>text_lines =
               [''This log was generated from an existing log for experiemnt 2019-07-01_12-00-00'',
                ''Launching experiment with config:'', ''{'', ''}'',
                line_epoch, line_marker, line_took],
             tf_events = []\<rparr>),
         (''data/saved/log/exp2/2019-07-01_12-00-00/info.log.backup'',
            \<lparr>text_lines = [line_epoch, line_marker, line_took, line_overrun], tf_events = []\<rparr>),
         (''data/saved/models/exp2/2019-07-01_12-00-00/config.json'',
            \<lparr>text_lines = [''{'', ''}''], tf_events = []\<rparr>),
         (''data/saved/models/exp2/2019-07-01_12-00-00/checkpoint-epoch100.pth'',
            \<lparr>text_lines = [''weights''], tf_events = []\<rparr>)],
      dirs = [''data'', ''data/saved'', ''data/saved/log'', ''data/saved/log/exp2'',
              ''data/saved/log/exp2/2019-07-01_12-00-00'', ''data/saved/models'',
              ''data/saved/models/exp2'', ''data/saved/models/exp2/2019-07-01_12-00-00''],
      trace = []\<rparr>"

text \<open>
  \<open>adds P w w'\<close>: the trace of \<open>w'\<close> is that of \<open>w\<close> followed by effects that all
  satisfy \<open>P\<close>.  \<open>ends_eval X lg w w'\<close>: the effects added hold no evaluation, or
  exactly one, which is the last of them and is \<open>Evaluation X lg\<close>.
\<close>

definition adds :: "(effect \<Rightarrow> bool) \<Rightarrow> world \<Rightarrow> world \<Rightarrow> bool" where
  "adds P w w' = (\<exists>es. trace w' = trace w @ es \<and> list_all P es)"

definition not_eval :: "effect \<Rightarrow> bool" where
  "not_eval e = (case e of Evaluation args lg \<Rightarrow> False | _ \<Rightarrow> True)"

definition ends_eval :: "eval_args \<Rightarrow> string \<Rightarrow> world \<Rightarrow> world \<Rightarrow> bool" where
  "ends_eval X lg w w' =
     (\<exists>es. trace w' = trace w @ es \<and>
           (list_all not_eval es \<or> (\<exists>es0. es = es0 @ [Evaluation X lg] \<and> list_all not_eval es0)))"

section \<open>Properties\<close>

subsection \<open>The event decoder\<close>

lemma loop_run:
  "returned (summary_loop its c g) = run_events (take (1000 - c) (records its)) g"
proof (induction its arbitrary: c g)
  case Nil
  show ?case by (simp add: returned_def)
next
  case (Cons it its)
  show ?case
  proof (cases it)
    case (DataLoss msg)
    then show ?thesis by (simp add: returned_def)
  next
    case (Rec ev)
    show ?thesis
    proof (cases "c < 1000")
      case False
      then show ?thesis using Rec by (simp add: returned_def)
    next
      case True
      then have t: "take (1000 - c) (ev # records its) = ev # take (1000 - Suc c) (records its)"
      proof -
        obtain k where k: "1000 - c = Suc k" using True by (cases "1000 - c") auto
        then have "1000 - Suc c = k" by arith
        with k show ?thesis by simp
      qed
      show ?thesis using True Rec t Cons.IH [of "Suc c"]
        by (simp add: returned_def split: sum.splits option.splits)
    qed
  qed
qed

lemma vals_of_ok:
  "list_all (\<lambda>x. tag x \<noteq> None \<and> simple_value x \<noteq> None) vs \<Longrightarrow>
   vals_of vs = Inr (map (\<lambda>x. the (tag x) @ '': '' @ the (simple_value x)) vs)"
  by (induction vs) auto

lemma vals_of_Inr:
  "vals_of vs = Inr x \<Longrightarrow> list_all (\<lambda>x. tag x \<noteq> None \<and> simple_value x \<noteq> None) vs"
  by (induction vs arbitrary: x) (auto split: option.splits sum.splits)

lemma event_row_wf:
  "wf_event ev \<Longrightarrow> event_row ev = Inr (if spec_emits ev then Some (spec_row ev) else None)"
  unfolding wf_event_def event_row_def spec_emits_def spec_row_def is_scalar_def first_tag_def
  by (auto split: option.splits list.splits simp: vals_of_ok simp del: vals_of.simps)

lemma event_row_Inr: "event_row ev = Inr r \<Longrightarrow> wf_event ev"
  unfolding wf_event_def event_row_def
  by (auto split: option.splits list.splits sum.splits if_splits dest: vals_of_Inr
           simp del: vals_of.simps list.pred_inject)

lemma event_row_not_wf: "\<not> wf_event ev \<Longrightarrow> \<exists>e. event_row ev = Inl e"
  using event_row_Inr [of ev] by (cases "event_row ev") auto

lemma run_events_wf:
  "list_all wf_event evs \<Longrightarrow>
   run_events evs g = Inr (g @ map spec_row (filter spec_emits evs))"
  by (induction evs arbitrary: g) (auto simp: event_row_wf)

lemma run_events_fail:
  "\<not> list_all wf_event evs \<Longrightarrow> \<exists>e. run_events evs g = Inl e"
proof (induction evs arbitrary: g)
  case Nil
  then show ?case by simp
next
  case (Cons ev evs)
  show ?case
  proof (cases "wf_event ev")
    case True
    with Cons show ?thesis by (auto simp: event_row_wf)
  next
    case False
    then obtain e where "event_row ev = Inl e" using event_row_not_wf by blast
    then show ?thesis by simp
  qed
qed

lemma records_take: "take n (records (take n its)) = take n (records its)"
proof (induction its arbitrary: n)
  case Nil
  show ?case by simp
next
  case (Cons it its)
  show ?case
  proof (cases n)
    case 0
    then show ?thesis by simp
  next
    case (Suc m)
    then show ?thesis using Cons.IH [of m] by (cases it) simp_all
  qed
qed

lemma records_map_Rec: "records (map Rec evs @ DataLoss msg # rest) = evs"
  by (induction evs) simp_all

lemma records_map_Rec': "records (map Rec evs) = evs"
  by (induction evs) simp_all

lemma parse_fst:
  assumes "glob_tfevents rel_dir w = [(p, f)]"
  shows "fst (parse_tboard_files rel_dir w) =
           run_events (take 1000 (records (tf_events f))) [header p]"
proof -
  have "fst (parse_tboard_files rel_dir w) = returned (summary_loop (tf_events f) 0 [header p])"
    using assms unfolding parse_tboard_files_def returned_def header_def
    by (simp split: loop_end.splits)
  then show ?thesis using loop_run [of "tf_events f" 0 "[header p]"] by simp
qed

lemma loop_prefix:
  "list_all wf_event evs \<Longrightarrow> c + length evs \<le> 1000 \<Longrightarrow>
   summary_loop (map Rec evs @ its) c g =
     summary_loop its (c + length evs) (g @ map spec_row (filter spec_emits evs))"
  by (induction evs arbitrary: c g) (auto simp: event_row_wf)

lemma glob_tb_world:
  "glob_tfevents ''old/run1'' (tb_world its) =
     [(''old/run1/events.out.tfevents.1561982400'', \<lparr>text_lines = [], tf_events = its\<rparr>)]"
  by (simp add: glob_tfevents_def tb_world_def parent_def pname_def)

lemma wf_scalar_event: "wf_event (scalar_event st tg)"
  by (simp add: wf_event_def scalar_event_def)

lemma spec_emits_scalar_event:
  "spec_emits (scalar_event st tg) = (st mod 2000 = 0 \<or> tg \<noteq> ''train/loss'')"
  by (simp add: spec_emits_def is_scalar_def first_tag_def scalar_event_def)

lemma show_nat_digits:
  "show_nat 0 = ''0''" "show_nat (Suc (Suc 0)) = ''2''" "show_nat 7 = ''7''" "show_nat 2000 = ''2000''" "show_nat 2100 = ''2100''"
  "show_nat 4000 = ''4000''" "show_nat 100 = ''100''"
  by (simp_all add: show_nat.simps digit_char_def)

lemma spec_row_scalar_event:
  "spec_row (scalar_event st tg) =
     ''2019-07-01:12h00m00s step: '' @ show_int st @ '', '' @ tg @ '': 0.5''"
  by (simp add: spec_row_def scalar_event_def)

lemma parse_unfold:
  "glob_tfevents rel_dir w = [(p, f)] \<Longrightarrow>
   parse_tboard_files rel_dir w =
     (case summary_loop (tf_events f) 0 [header p] of
        Done count gen_log \<Rightarrow>
          (Inr gen_log,
           emit (map Print (tl gen_log) @ [Print (''parsed '' @ show_nat count @ '' summaries'')]) w)
      | Lost msg count gen_log \<Rightarrow>
          (Inr gen_log,
           emit (map Print (tl gen_log) @
                 [Print (msg @ '' Could not parse any further information''),
                  Print (''parsed '' @ show_nat count @ '' summaries'')]) w)
      | Failed e count gen_log \<Rightarrow> (Inl e, emit (map Print (tl gen_log)) w))"
  by (simp add: parse_tboard_files_def header_def)

lemma records_replicate:
  "records (replicate n (Rec ev) @ its) = replicate n ev @ records its"
  by (induction n) simp_all

lemma protobuf_to_dict_scalar_msg:
  "st \<noteq> 0 \<Longrightarrow> tg \<noteq> [] \<Longrightarrow> protobuf_to_dict (scalar_msg st tg) = scalar_event st tg"
  by (simp add: protobuf_to_dict_def scalar_msg_def scalar_event_def value_to_dict_def)

lemma no_step_no_row: "step ev = None \<Longrightarrow> wf_event ev \<and> \<not> spec_emits ev"
  by (simp add: wf_event_def spec_emits_def)

text \<open>
  Claim C4.  The loop body runs over the first 1000 records the iterator yields, in order,
  and over no other: the function returns what the body gives on exactly those records,
  starting from the header line.  So two event files with the same name that agree on
  their first 1000 items give the same returned log (or the same exception), and a
  returned log has at most 1000 rows after its header.
\<close>

theorem parse_tboard_files_cap:
  assumes "glob_tfevents rel_dir w = [(p, f)]"
      and "glob_tfevents rel_dir w' = [(p, f')]"
      and "take 1000 (tf_events f) = take 1000 (tf_events f')"
  shows "fst (parse_tboard_files rel_dir w) =
           run_events (take 1000 (records (tf_events f))) [header p] \<and>
         fst (parse_tboard_files rel_dir w) = fst (parse_tboard_files rel_dir w') \<and>
         (\<forall>gen_log. fst (parse_tboard_files rel_dir w) = Inr gen_log \<longrightarrow> length gen_log \<le> 1001)"
proof -
  have run: "fst (parse_tboard_files rel_dir w) =
               run_events (take 1000 (records (tf_events f))) [header p]"
    using assms(1) by (rule parse_fst)
  have "take 1000 (records (tf_events f)) = take 1000 (records (tf_events f'))"
    using assms(3) records_take [of 1000 "tf_events f"] records_take [of 1000 "tf_events f'"]
    by simp
  then have eq: "fst (parse_tboard_files rel_dir w) = fst (parse_tboard_files rel_dir w')"
    using assms(1,2) by (simp add: parse_fst)
  have "length gen_log \<le> 1001" if r: "fst (parse_tboard_files rel_dir w) = Inr gen_log" for gen_log
  proof -
    let ?evs = "take 1000 (records (tf_events f))"
    have ok: "run_events ?evs [header p] = Inr gen_log"
      using r run by simp
    then have "list_all wf_event ?evs"
      using run_events_fail [of ?evs "[header p]"] by auto
    then have "gen_log = header p # map spec_row (filter spec_emits ?evs)"
      using ok by (simp add: run_events_wf)
    moreover have "length (filter spec_emits ?evs) \<le> 1000"
      by (rule order_trans [OF length_filter_le]) simp
    ultimately show ?thesis by simp
  qed
  with run eq show ?thesis by blast
qed

theorem parse_tboard_files_cap_witness:
  "fst (parse_tboard_files ''old/run1''
          (tb_world (replicate 999 (Rec (scalar_event 7 ''val/acc'')) @
                     [Rec (scalar_event 2000 ''train/loss''), Rec (scalar_event 4000 ''train/loss'')]))) =
     Inr (''This log was generated from tensorboard file events.out.tfevents.1561982400'' #
          replicate 999 ''2019-07-01:12h00m00s step: 7, val/acc: 0.5'' @
          [''2019-07-01:12h00m00s step: 2000, train/loss: 0.5'']) \<and>
   fst (parse_tboard_files ''old/run1''
          (tb_world (replicate 999 (Rec (scalar_event 7 ''val/acc'')) @
                     [Rec (scalar_event 2000 ''train/loss''), Rec (scalar_event 4000 ''train/loss'')]))) =
   fst (parse_tboard_files ''old/run1''
          (tb_world (replicate 999 (Rec (scalar_event 7 ''val/acc'')) @
                     [Rec (scalar_event 2000 ''train/loss''), DataLoss ''truncated''])))"
proof -
  let ?e = "scalar_event 7 ''val/acc''"
  let ?a = "scalar_event 2000 ''train/loss''"
  let ?its = "replicate 999 (Rec ?e) @ [Rec ?a, Rec (scalar_event 4000 ''train/loss'')]"
  let ?its' = "replicate 999 (Rec ?e) @ [Rec ?a, DataLoss ''truncated'']"
  have t: "take 1000 ?its = take 1000 ?its'" by simp
  have r: "take 1000 (records ?its) = replicate 999 ?e @ [?a]"
    by (simp add: records_replicate)
  have w: "list_all wf_event (replicate 999 ?e @ [?a])"
    by (simp add: list_all_iff wf_scalar_event)
  have rows: "run_events (replicate 999 ?e @ [?a]) [header ''old/run1/events.out.tfevents.1561982400''] =
     Inr (''This log was generated from tensorboard file events.out.tfevents.1561982400'' #
          replicate 999 ''2019-07-01:12h00m00s step: 7, val/acc: 0.5'' @
          [''2019-07-01:12h00m00s step: 2000, train/loss: 0.5''])"
    by (simp add: run_events_wf [OF w] spec_emits_scalar_event spec_row_scalar_event header_def
          pname_def show_int_def show_nat_digits)
  have f: "tf_events \<lparr>text_lines = [], tf_events = its\<rparr> = its" for its :: "item list"
    by simp
  note T = parse_tboard_files_cap [OF glob_tb_world [of ?its] glob_tb_world [of ?its'],
             unfolded f, OF t]
  have 1: "fst (parse_tboard_files ''old/run1'' (tb_world ?its)) =
     Inr (''This log was generated from tensorboard file events.out.tfevents.1561982400'' #
          replicate 999 ''2019-07-01:12h00m00s step: 7, val/acc: 0.5'' @
          [''2019-07-01:12h00m00s step: 2000, train/loss: 0.5''])"
    using T r rows by simp
  have 2: "fst (parse_tboard_files ''old/run1'' (tb_world ?its)) =
           fst (parse_tboard_files ''old/run1'' (tb_world ?its'))"
    using T by blast
  show ?thesis
  proof (rule conjI)
    show "fst (parse_tboard_files ''old/run1'' (tb_world ?its)) =
     Inr (''This log was generated from tensorboard file events.out.tfevents.1561982400'' #
          replicate 999 ''2019-07-01:12h00m00s step: 7, val/acc: 0.5'' @
          [''2019-07-01:12h00m00s step: 2000, train/loss: 0.5''])"
      by (rule 1)
    show "fst (parse_tboard_files ''old/run1'' (tb_world ?its)) =
          fst (parse_tboard_files ''old/run1'' (tb_world ?its'))"
      by (rule 2)
  qed
qed

text \<open>
  Claim C1, as amended.  Among the first 1000 records that the iterator yields before any
  corruption, provided each of them is one the loop body accepts, the returned log holds
  after its header exactly one line (time stamp, step, every tag/value pair) for each
  decoded record that is scalar-valued, has the key \<open>step\<close>, and whose step is a multiple
  of 2000 or whose first tag is not \<open>train/loss\<close>, in stream order, and no other line.
  The decoding of a message with step 0 has no key \<open>step\<close>: such a record is accepted
  and gets no line, whatever its tag.  So for the dominant tag at steps 0, 2000 and 4000
  the lines are those of the steps 2000 and 4000, and a record of another tag gets a line
  at every step but 0.
\<close>

theorem subsampling_within_cap:
  assumes "glob_tfevents rel_dir w = [(p, f)]"
      and "list_all wf_event (take 1000 (records (tf_events f)))"
  shows "fst (parse_tboard_files rel_dir w) =
           Inr (header p # map spec_row (filter spec_emits (take 1000 (records (tf_events f))))) \<and>
         (\<forall>m. pb_step m = 0 \<longrightarrow>
              wf_event (protobuf_to_dict m) \<and> \<not> spec_emits (protobuf_to_dict m))"
proof -
  have "fst (parse_tboard_files rel_dir w) =
           Inr (header p # map spec_row (filter spec_emits (take 1000 (records (tf_events f)))))"
    using assms by (simp add: parse_fst run_events_wf)
  moreover have "wf_event (protobuf_to_dict m) \<and> \<not> spec_emits (protobuf_to_dict m)"
    if "pb_step m = 0" for m
    using that by (intro no_step_no_row) (simp add: protobuf_to_dict_def)
  ultimately show ?thesis by blast
qed

theorem subsampling_within_cap_witness:
  "fst (parse_tboard_files ''old/run1'' (tb_world mixed_stream)) =
     Inr [''This log was generated from tensorboard file events.out.tfevents.1561982400'',
          ''2019-07-01:12h00m00s step: 100, val/acc: 0.5'',
          ''2019-07-01:12h00m00s step: 2000, train/loss: 0.5'',
          ''2019-07-01:12h00m00s step: 2100, val/acc: 0.5'',
          ''2019-07-01:12h00m00s step: 4000, train/loss: 0.5''] \<and>
   \<not> spec_emits (protobuf_to_dict (scalar_msg 0 ''train/loss'')) \<and>
   \<not> spec_emits (protobuf_to_dict (scalar_msg 0 ''val/acc''))"
proof -
  have z: "pb_step (scalar_msg 0 tg) = 0" for tg by (simp add: scalar_msg_def)
  have d: "mixed_stream =
      [Rec (protobuf_to_dict (scalar_msg 0 ''train/loss'')),
       Rec (protobuf_to_dict (scalar_msg 0 ''val/acc'')),
       Rec (scalar_event 100 ''train/loss''), Rec (scalar_event 100 ''val/acc''),
       Rec (scalar_event 2000 ''train/loss''), Rec (scalar_event 2100 ''val/acc''),
       Rec (scalar_event 3900 ''train/loss''), Rec (scalar_event 4000 ''train/loss'')]"
    by (simp add: mixed_stream_def protobuf_to_dict_scalar_msg)
  have f: "tf_events \<lparr>text_lines = [], tf_events = mixed_stream\<rparr> = mixed_stream"
    by simp
  note T = subsampling_within_cap [OF glob_tb_world [of mixed_stream], unfolded f]
  have zero: "wf_event (protobuf_to_dict (scalar_msg 0 tg)) \<and>
              \<not> spec_emits (protobuf_to_dict (scalar_msg 0 tg))" for tg
    by (rule no_step_no_row) (simp add: protobuf_to_dict_def scalar_msg_def)
  have wf: "list_all wf_event (take 1000 (records mixed_stream))"
    by (simp add: d zero wf_scalar_event)
  show ?thesis
    using T [OF wf] zero
    by (simp add: d wf_scalar_event spec_emits_scalar_event spec_row_scalar_event
          header_def pname_def show_int_def show_nat_digits)
qed

text \<open>
  Claim C1 as stated fails in three ways.  Of 1001 scalar records with the tag
  \<open>val/acc\<close>, each of which the policy keeps, only the first 1000 get a line: the loop
  breaks at the 1001st.  Of the dominant tag at the steps 0, 2000 and 4000 only the steps
  2000 and 4000 get a line: the decoded step-0 record has no key \<open>step\<close> and line 41
  skips it.  And a kept scalar record gets no line when a later record makes the loop body
  raise: after it comes a record whose wall time is 0.0, so that its decoding has no key
  \<open>wall_time\<close>; line 44 raises \<open>KeyError\<close> and no log is returned.
\<close>

theorem subsampling_counterexample:
  "fst (parse_tboard_files ''old/run1'' (tb_world (replicate 1001 (Rec (scalar_event 7 ''val/acc''))))) =
     Inr (header ''old/run1/events.out.tfevents.1561982400''
          # replicate 1000 (spec_row (scalar_event 7 ''val/acc''))) \<and>
   fst (parse_tboard_files ''old/run1'' (tb_world (replicate 1001 (Rec (scalar_event 7 ''val/acc''))))) \<noteq>
     Inr (header ''old/run1/events.out.tfevents.1561982400''
          # map spec_row (filter spec_emits
              (records (replicate 1001 (Rec (scalar_event 7 ''val/acc'')))))) \<and>
   fst (parse_tboard_files ''old/run1'' (tb_world three_steps)) =
     Inr [''This log was generated from tensorboard file events.out.tfevents.1561982400'',
          ''2019-07-01:12h00m00s step: 2000, train/loss: 0.5'',
          ''2019-07-01:12h00m00s step: 4000, train/loss: 0.5''] \<and>
   spec_emits (scalar_event 2000 ''train/loss'') \<and>
   fst (parse_tboard_files ''old/run1'' (tb_world raising_stream)) = Inl (KeyError ''wall_time'')"
proof -
  let ?e = "scalar_event 7 ''val/acc''"
  let ?h = "header ''old/run1/events.out.tfevents.1561982400''"
  have r: "records (replicate n (Rec ?e)) = replicate n ?e" for n
    using records_replicate [of n ?e "[]"] by simp
  have w: "list_all wf_event (replicate 1000 ?e)"
    by (simp add: list_all_iff wf_scalar_event)
  have e: "spec_emits ?e" by (simp add: spec_emits_scalar_event)
  have "fst (parse_tboard_files ''old/run1'' (tb_world (replicate 1001 (Rec ?e)))) =
          run_events (replicate 1000 ?e) [?h]"
    using parse_fst [OF glob_tb_world, of "replicate 1001 (Rec ?e)"] by (simp add: r)
  then have cap: "fst (parse_tboard_files ''old/run1'' (tb_world (replicate 1001 (Rec ?e)))) =
       Inr (?h # replicate 1000 (spec_row ?e)) \<and>
     fst (parse_tboard_files ''old/run1'' (tb_world (replicate 1001 (Rec ?e)))) \<noteq>
       Inr (?h # map spec_row (filter spec_emits (records (replicate 1001 (Rec ?e)))))"
    using e r [of 1001] by (simp add: run_events_wf [OF w])
  have zero: "wf_event (protobuf_to_dict (scalar_msg 0 ''train/loss'')) \<and>
              \<not> spec_emits (protobuf_to_dict (scalar_msg 0 ''train/loss''))"
    by (rule no_step_no_row) (simp add: protobuf_to_dict_def scalar_msg_def)
  have d: "three_steps =
      [Rec (protobuf_to_dict (scalar_msg 0 ''train/loss'')),
       Rec (scalar_event 2000 ''train/loss''), Rec (scalar_event 4000 ''train/loss'')]"
    by (simp add: three_steps_def protobuf_to_dict_scalar_msg)
  have wf3: "list_all wf_event (take 1000 (records three_steps))"
    by (simp add: d zero wf_scalar_event)
  have three: "fst (parse_tboard_files ''old/run1'' (tb_world three_steps)) =
     Inr [''This log was generated from tensorboard file events.out.tfevents.1561982400'',
          ''2019-07-01:12h00m00s step: 2000, train/loss: 0.5'',
          ''2019-07-01:12h00m00s step: 4000, train/loss: 0.5'']"
    using parse_fst [OF glob_tb_world, of three_steps] zero
    by (simp add: run_events_wf [OF wf3])
       (simp add: d zero spec_emits_scalar_event spec_row_scalar_event header_def pname_def
          show_int_def show_nat_digits)
  have kept: "spec_emits (scalar_event 2000 ''train/loss'')"
    by (simp add: spec_emits_scalar_event)
  have bad: "event_row (protobuf_to_dict
                \<lparr>pb_step = 2100, pb_wall_time = None,
                 pb_summary = Some [\<lparr>pb_tag = ''train/loss'', pb_which = SimpleValue ''0.5''\<rparr>]\<rparr>) =
             Inl (KeyError ''wall_time'')"
    by (simp add: event_row_def protobuf_to_dict_def)
  have raising: "fst (parse_tboard_files ''old/run1'' (tb_world raising_stream)) =
                   Inl (KeyError ''wall_time'')"
    using parse_fst [OF glob_tb_world, of raising_stream]
    by (simp add: raising_stream_def bad event_row_wf [OF wf_scalar_event] kept)
  from cap three kept raising show ?thesis by blast
qed

text \<open>
  Claim C8.  A \<open>DataLossError\<close> raised by the iterator is not propagated: the function
  returns what it returns for the stream that ends cleanly at the corruption point.  When
  the records before that point number at most 1000 and are all accepted, it returns the
  header and their rows, and it prints the rows, the error's message followed by
  \<open>Could not parse any further information\<close>, and the count.  An exception comes out
  exactly when one of the first 1000 records before the corruption point is not accepted
  by the loop body: no other failure is caught.
\<close>

theorem data_loss_ends_the_stream:
  assumes "glob_tfevents rel_dir w = [(p, f)]"
      and "tf_events f = map Rec evs @ DataLoss msg # rest"
      and "glob_tfevents rel_dir w' = [(p, f')]"
      and "tf_events f' = map Rec evs"
  shows "fst (parse_tboard_files rel_dir w) = fst (parse_tboard_files rel_dir w') \<and>
         (length evs \<le> 1000 \<and> list_all wf_event evs \<longrightarrow>
            fst (parse_tboard_files rel_dir w) =
              Inr (header p # map spec_row (filter spec_emits evs)) \<and>
            trace (snd (parse_tboard_files rel_dir w)) =
              trace w @ map Print (map spec_row (filter spec_emits evs)) @
              [Print (msg @ '' Could not parse any further information''),
               Print (''parsed '' @ show_nat (length evs) @ '' summaries'')]) \<and>
         ((\<exists>e. fst (parse_tboard_files rel_dir w) = Inl e) \<longleftrightarrow>
            \<not> list_all wf_event (take 1000 evs))"
proof -
  have fst_w: "fst (parse_tboard_files rel_dir w) = run_events (take 1000 evs) [header p]"
    using assms(1,2) by (simp add: parse_fst records_map_Rec)
  have fst_w': "fst (parse_tboard_files rel_dir w') = run_events (take 1000 evs) [header p]"
    using assms(3,4) by (simp add: parse_fst records_map_Rec')
  have same: "fst (parse_tboard_files rel_dir w) = fst (parse_tboard_files rel_dir w')"
    using fst_w fst_w' by simp
  have logged: "fst (parse_tboard_files rel_dir w) =
              Inr (header p # map spec_row (filter spec_emits evs)) \<and>
            trace (snd (parse_tboard_files rel_dir w)) =
              trace w @ map Print (map spec_row (filter spec_emits evs)) @
              [Print (msg @ '' Could not parse any further information''),
               Print (''parsed '' @ show_nat (length evs) @ '' summaries'')]"
    if len: "length evs \<le> 1000" and wf: "list_all wf_event evs"
  proof -
    have "summary_loop (tf_events f) 0 [header p] =
            Lost msg (length evs) (header p # map spec_row (filter spec_emits evs))"
      using loop_prefix [OF wf, of 0 "DataLoss msg # rest" "[header p]"] len assms(2) by simp
    then show ?thesis
      using assms(1) by (simp add: parse_unfold emit_def)
  qed
  have fails: "(\<exists>e. fst (parse_tboard_files rel_dir w) = Inl e) \<longleftrightarrow>
            \<not> list_all wf_event (take 1000 evs)"
    using run_events_fail [of "take 1000 evs" "[header p]"]
          run_events_wf [of "take 1000 evs" "[header p]"] fst_w
    by auto
  from same logged fails show ?thesis by blast
qed

theorem data_loss_ends_the_stream_witness:
  "fst (parse_tboard_files ''old/run1'' (tb_world lossy_stream)) =
     fst (parse_tboard_files ''old/run1'' (tb_world clean_stream)) \<and>
   fst (parse_tboard_files ''old/run1'' (tb_world lossy_stream)) =
     Inr [''This log was generated from tensorboard file events.out.tfevents.1561982400'',
          ''2019-07-01:12h00m00s step: 2000, train/loss: 0.5''] \<and>
   trace (snd (parse_tboard_files ''old/run1'' (tb_world lossy_stream))) =
     [Print ''2019-07-01:12h00m00s step: 2000, train/loss: 0.5'',
      Print ''truncated record at offset 4096 Could not parse any further information'',
      Print ''parsed 2 summaries'']"
proof -
  let ?evs = "[scalar_event 2000 ''train/loss'', scalar_event 2100 ''train/loss'']"
  have lossy: "tf_events \<lparr>text_lines = [], tf_events = lossy_stream\<rparr> =
                 map Rec ?evs @ DataLoss ''truncated record at offset 4096''
                   # [Rec (scalar_event 4000 ''train/loss'')]"
    by (simp add: lossy_stream_def)
  have clean: "tf_events \<lparr>text_lines = [], tf_events = clean_stream\<rparr> = map Rec ?evs"
    by (simp add: clean_stream_def)
  have ok: "length ?evs \<le> 1000 \<and> list_all wf_event ?evs"
    by (simp add: wf_scalar_event)
  have no_trace: "trace (tb_world lossy_stream) = []"
    by (simp add: tb_world_def)
  show ?thesis
    using data_loss_ends_the_stream [OF glob_tb_world lossy glob_tb_world clean] ok no_trace
    by (auto simp: spec_emits_scalar_event spec_row_scalar_event header_def pname_def
          show_int_def show_nat_digits)
qed

subsection \<open>The text-log normalizer\<close>

lemma show_nat_100: "show_nat 100 = ''100''"
  by (simp add: show_nat.simps digit_char_def)

lemma parse_old_log_unfold:
  assumes "map_of (files w) config_path = Some cf" and "map_of (files w) log_path = Some lf"
  shows "parse_old_log log_path config_path fixed_epochs w =
     (let log = text_lines lf in
      if length (filter (is_marker fixed_epochs) log) \<noteq> 1
      then Inl (AssertionError ''expected single occurence of log tag'')
      else (let pos = length (takeWhile (\<lambda>row. \<not> is_marker fixed_epochs row) log)
            in if length log \<le> pos + 1 then Inl IndexError
               else Inr (provenance log_path @ text_lines cf @
                         take (pos + 1 + (if contains (log ! (pos + 1)) ''Training took'' then 1 else 0)) log)))"
proof -
  have f: "length (filter id (map P xs)) = length (filter P xs)" for P :: "string \<Rightarrow> bool" and xs
    by (induction xs) simp_all
  have t: "length (takeWhile Not (map P xs)) = length (takeWhile (\<lambda>row. \<not> P row) xs)"
    for P :: "string \<Rightarrow> bool" and xs
    by (induction xs) simp_all
  show ?thesis
    unfolding parse_old_log_def Let_def is_marker_def provenance_def using assms
    by (simp add: f t)
qed

lemma single_marker:
  assumes "\<forall>row \<in> set pre. \<not> is_marker ep row" and "is_marker ep m" and "\<forall>row \<in> set post. \<not> is_marker ep row"
  shows "length (filter (is_marker ep) (pre @ m # post)) = 1"
    and "length (takeWhile (\<lambda>row. \<not> is_marker ep row) (pre @ m # post)) = length pre"
  using assms by (simp_all add: takeWhile_append2 filter_empty_conv [THEN iffD2])


lemma sample_lines:
  "is_marker 100 line_marker" "\<not> is_marker 100 line_epoch"
  "\<not> is_marker 100 line_took" "\<not> is_marker 100 line_overrun"
  "contains line_took ''Training took''" "\<not> contains line_overrun ''Training took''"
  by (simp_all add: is_marker_def line_marker_def line_epoch_def line_took_def line_overrun_def
        show_int_def show_nat_100)

lemma std_world_files:
  "map_of (files (std_world log)) ''data/saved/log/exp2/2019-07-01_12-00-00/info.log'' =
     Some \<lparr>text_lines = log, tf_events = []\<rparr>"
  "map_of (files (std_world log)) ''data/saved/models/exp2/2019-07-01_12-00-00/config.json'' =
     Some \<lparr>text_lines = [''{'', ''}''], tf_events = []\<rparr>"
  by (simp_all add: std_world_def)

lemma parse_old_log_truncates:
  assumes "map_of (files w) config_path = Some cf" and "map_of (files w) log_path = Some lf"
      and "text_lines lf = pre @ m # nxt # rest"
      and "is_marker ep m"
      and "\<forall>row \<in> set pre. \<not> is_marker ep row"
      and "\<forall>row \<in> set (nxt # rest). \<not> is_marker ep row"
  shows "parse_old_log log_path config_path ep w =
           Inr (provenance log_path @ text_lines cf @ pre @ [m] @
                (if contains nxt ''Training took'' then [nxt] else []))"
proof -
  have one: "length (filter (is_marker ep) (text_lines lf)) = 1"
    and pos: "length (takeWhile (\<lambda>row. \<not> is_marker ep row) (text_lines lf)) = length pre"
    using single_marker [OF assms(5) assms(4) assms(6)] assms(3) by simp_all
  have nth: "(pre @ m # nxt # rest) ! Suc (length pre) = nxt"
    by (simp add: nth_append)
  show ?thesis
    using one pos nth assms(3)
    by (simp add: parse_old_log_unfold [OF assms(1,2)] Let_def)
qed

lemma parse_old_log_no_next_line:
  assumes "map_of (files w) config_path = Some cf" and "map_of (files w) log_path = Some lf"
      and "text_lines lf = pre @ [m]"
      and "is_marker ep m"
      and "\<forall>row \<in> set pre. \<not> is_marker ep row"
  shows "parse_old_log log_path config_path ep w = Inl IndexError"
proof -
  have one: "length (filter (is_marker ep) (text_lines lf)) = 1"
    and pos: "length (takeWhile (\<lambda>row. \<not> is_marker ep row) (text_lines lf)) = length pre"
    using single_marker [OF assms(5) assms(4), of "[]"] assms(3) by simp_all
  show ?thesis
    using one pos assms(3)
    by (simp add: parse_old_log_unfold [OF assms(1,2)] Let_def)
qed

lemma parse_old_log_sample:
  "parse_old_log ''data/saved/log/exp2/2019-07-01_12-00-00/info.log''
     ''data/saved/models/exp2/2019-07-01_12-00-00/config.json'' 100
     (std_world [line_epoch, line_marker, line_took, line_overrun]) =
   Inr [''This log was generated from an existing log for experiemnt 2019-07-01_12-00-00'',
        ''Launching experiment with config:'', ''{'', ''}'', line_epoch, line_marker, line_took]"
  using parse_old_log_truncates
          [OF std_world_files(2) [of "[line_epoch, line_marker, line_took, line_overrun]"]
              std_world_files(1) [of "[line_epoch, line_marker, line_took, line_overrun]"],
           where pre = "[line_epoch]" and m = line_marker and nxt = line_took
             and rest = "[line_overrun]" and ep = 100]
  by (simp add: sample_lines provenance_def stem_def parent_def pname_def)

text \<open>
  Claim C5.  With both files readable, \<open>parse_old_log\<close> returns a log only when exactly
  one line of the legacy log is a marker line for the given epoch; when no line or more
  than one line is, it raises the assertion error and returns no log.
\<close>

theorem parse_old_log_needs_single_marker:
  assumes "map_of (files w) config_path = Some cf" and "map_of (files w) log_path = Some lf"
  shows "(length (filter (is_marker fixed_epochs) (text_lines lf)) \<noteq> 1 \<longrightarrow>
            parse_old_log log_path config_path fixed_epochs w =
              Inl (AssertionError ''expected single occurence of log tag'')) \<and>
         ((\<exists>gen_log. parse_old_log log_path config_path fixed_epochs w = Inr gen_log) \<longrightarrow>
            length (filter (is_marker fixed_epochs) (text_lines lf)) = 1)"
  by (auto simp: parse_old_log_unfold [OF assms] Let_def split: if_splits)

theorem parse_old_log_needs_single_marker_witness:
  "parse_old_log ''data/saved/log/exp2/2019-07-01_12-00-00/info.log''
     ''data/saved/models/exp2/2019-07-01_12-00-00/config.json'' 100
     (std_world [line_epoch, line_overrun]) =
       Inl (AssertionError ''expected single occurence of log tag'') \<and>
   parse_old_log ''data/saved/log/exp2/2019-07-01_12-00-00/info.log''
     ''data/saved/models/exp2/2019-07-01_12-00-00/config.json'' 100
     (std_world [line_marker, line_marker, line_took]) =
       Inl (AssertionError ''expected single occurence of log tag'') \<and>
   (\<exists>gen_log.
      parse_old_log ''data/saved/log/exp2/2019-07-01_12-00-00/info.log''
        ''data/saved/models/exp2/2019-07-01_12-00-00/config.json'' 100
        (std_world [line_epoch, line_marker, line_took, line_overrun]) = Inr gen_log) \<and>
   length (filter (is_marker 100) [line_epoch, line_marker, line_took, line_overrun]) = 1"
  using parse_old_log_needs_single_marker
          [OF std_world_files(2) [of "[line_epoch, line_overrun]"]
              std_world_files(1) [of "[line_epoch, line_overrun]"], where fixed_epochs = 100]
        parse_old_log_needs_single_marker
          [OF std_world_files(2) [of "[line_marker, line_marker, line_took]"]
              std_world_files(1) [of "[line_marker, line_marker, line_took]"],
           where fixed_epochs = 100]
        parse_old_log_needs_single_marker
          [OF std_world_files(2) [of "[line_epoch, line_marker, line_took, line_overrun]"]
              std_world_files(1) [of "[line_epoch, line_marker, line_took, line_overrun]"],
           where fixed_epochs = 100]
        parse_old_log_sample
  by (simp add: sample_lines)

text \<open>
  Claim C9.  When the only marker line is the last line of the legacy log, reading
  \<open>log[pos + 1]\<close> is out of range and \<open>parse_old_log\<close> raises \<open>IndexError\<close>
  instead of returning a truncated log.
\<close>

theorem parse_old_log_marker_last:
  assumes "map_of (files w) config_path = Some cf" and "map_of (files w) log_path = Some lf"
      and "text_lines lf = pre @ [m]"
      and "is_marker fixed_epochs m"
      and "\<forall>row \<in> set pre. \<not> is_marker fixed_epochs row"
  shows "parse_old_log log_path config_path fixed_epochs w = Inl IndexError"
  using assms by (rule parse_old_log_no_next_line)

theorem parse_old_log_marker_last_witness:
  "parse_old_log ''data/saved/log/exp2/2019-07-01_12-00-00/info.log''
     ''data/saved/models/exp2/2019-07-01_12-00-00/config.json'' 100
     (std_world [line_epoch, line_marker]) = Inl IndexError"
  using parse_old_log_marker_last
          [OF std_world_files(2) [of "[line_epoch, line_marker]"]
              std_world_files(1) [of "[line_epoch, line_marker]"],
           where pre = "[line_epoch]" and m = line_marker and fixed_epochs = 100]
  by (simp add: sample_lines)

text \<open>
  Claim C2 at a log whose only marker line is its last line: the claim asks for the
  provenance lines, the configuration and the log up to the marker; the function raises
  \<open>IndexError\<close>.  (\<open>parse_old_log_truncates\<close> above is the claim for the logs in
  which a line follows the marker.)
\<close>

theorem parse_old_log_fails_without_next_line:
  "length (filter (is_marker 100) [line_epoch, line_epoch, line_marker]) = 1 \<and>
   parse_old_log ''data/saved/log/exp2/2019-07-01_12-00-00/info.log''
     ''data/saved/models/exp2/2019-07-01_12-00-00/config.json'' 100
     (std_world [line_epoch, line_epoch, line_marker]) = Inl IndexError \<and>
   parse_old_log ''data/saved/log/exp2/2019-07-01_12-00-00/info.log''
     ''data/saved/models/exp2/2019-07-01_12-00-00/config.json'' 100
     (std_world [line_epoch, line_epoch, line_marker]) \<noteq>
       Inr (provenance ''data/saved/log/exp2/2019-07-01_12-00-00/info.log'' @ [''{'', ''}''] @
            [line_epoch, line_epoch, line_marker])"
  using parse_old_log_no_next_line
          [OF std_world_files(2) [of "[line_epoch, line_epoch, line_marker]"]
              std_world_files(1) [of "[line_epoch, line_epoch, line_marker]"],
           where pre = "[line_epoch, line_epoch]" and m = line_marker and ep = 100]
  by (simp add: sample_lines)

subsection \<open>The artifact transfer of modernize_exp_dir\<close>

lemma emit_simps [simp]:
  "files (emit es w) = files w" "dirs (emit es w) = dirs w" "trace (emit es w) = trace w @ es"
  by (simp_all add: emit_def)

lemma exists_emit [simp]: "exists p (emit es w) = exists p w" "is_file p (emit es w) = is_file p w"
  by (simp_all add: exists_def is_file_def)

lemma and_then_simps [simp]:
  "and_then (None, w) f = f w" "and_then (Some e, w) f = (Some e, w)"
  by (simp_all add: and_then_def)

lemma grows_refl: "grows w w"
  by (simp add: grows_def)

lemma exists_mono: "grows w w' \<Longrightarrow> exists p w \<Longrightarrow> exists p w'"
  by (auto simp: grows_def exists_def is_file_def)

lemma grows_trans:
  assumes "grows w w1" and "grows w1 w2"
  shows "grows w w2"
proof -
  obtain es1 where es1: "trace w1 = trace w @ es1"
      "\<forall>src dst. CopyFile src dst \<in> set es1 \<longrightarrow> \<not> exists dst w"
    using assms(1) by (auto simp: grows_def)
  obtain es2 where es2: "trace w2 = trace w1 @ es2"
      "\<forall>src dst. CopyFile src dst \<in> set es2 \<longrightarrow> \<not> exists dst w1"
    using assms(2) by (auto simp: grows_def)
  have "trace w2 = trace w @ (es1 @ es2)" using es1 es2 by simp
  moreover have "\<not> exists dst w" if "CopyFile src dst \<in> set (es1 @ es2)" for src dst
  proof (cases "CopyFile src dst \<in> set es1")
    case True
    then show ?thesis using es1(2) by blast
  next
    case False
    then have "CopyFile src dst \<in> set es2" using that by simp
    then have "\<not> exists dst w1" using es2(2) by blast
    then show ?thesis using exists_mono [OF assms(1)] by blast
  qed
  moreover have "\<forall>p d. map_of (files w) p = Some d \<longrightarrow> map_of (files w2) p = Some d"
    using assms by (simp add: grows_def)
  moreover have "set (dirs w) \<subseteq> set (dirs w2)"
    using assms by (auto simp: grows_def)
  ultimately show ?thesis unfolding grows_def by blast
qed

lemma grows_emit: "\<forall>src dst. CopyFile src dst \<notin> set es \<Longrightarrow> grows w (emit es w)"
  by (auto simp: grows_def)

lemma grows_mkdir: "grows w (snd (mkdir_parents p w))"
  by (auto simp: mkdir_parents_def grows_def split: list.splits)

lemma grows_copyfile: "\<not> exists dst w \<Longrightarrow> grows w (snd (copyfile src dst w))"
  by (auto simp: copyfile_def grows_def exists_def is_file_def update_conv' split: option.splits)

lemma grows_parse_tboard: "grows w (snd (parse_tboard_files rel_dir w))"
  unfolding parse_tboard_files_def Let_def
  by (auto simp: grows_refl split: loop_end.splits intro!: grows_emit)

lemma grows_and_then:
  "grows w (snd r) \<Longrightarrow> (\<And>w1. grows w1 (snd (f w1))) \<Longrightarrow> grows w (snd (and_then r f))"
  by (cases r) (auto simp: and_then_def split: option.splits intro: grows_trans)

lemma modernize_exp_steps:
  assumes "checkpoints key = Some entry" and "timestamp entry = Some rel_dir"
  shows "modernize_exp checkpoints save_dir refresh key w =
     (let ts = last (split CHR ''/'' rel_dir);
          config_path = canonical save_dir ''models'' key ts ''config.json'';
          model_path = canonical save_dir ''models'' key ts ''model_best.pth'';
          dest_log = canonical save_dir ''log'' key ts ''info.log''
      in and_then (mkdir_parents (parent config_path) w) (\<lambda>w.
         and_then (copy_step refresh
                     (''copying config: '' @ pjoin rel_dir ''config.json'' @ '' -> '' @ config_path)
                     (''transferred config found at '' @ config_path @ '', skipping...'')
                     (pjoin rel_dir ''config.json'') config_path w) (\<lambda>w.
         and_then (copy_step refresh
                     (''copying model: '' @ pjoin rel_dir ''model_best.pth'' @ '' -> '' @ model_path)
                     (''transferred model found at '' @ model_path @ '', skipping...'')
                     (pjoin rel_dir ''model_best.pth'') model_path w)
           (log_step refresh rel_dir dest_log config_path))))"
  unfolding modernize_exp_def copy_step_def log_step_def canonical_def Let_def
  using assms by simp

lemma grows_copy_step: "grows w (snd (copy_step False a b src dst w))"
proof (cases "exists dst w")
  case True
  then show ?thesis by (simp add: copy_step_def grows_emit)
next
  case False
  then have "grows (emit [Print a] w) (snd (copyfile src dst (emit [Print a] w)))"
    by (intro grows_copyfile) simp
  moreover have "grows w (emit [Print a] w)" by (simp add: grows_emit)
  ultimately show ?thesis using False by (auto simp: copy_step_def intro: grows_trans)
qed

lemma grows_log_step: "grows w (snd (log_step refresh rel_dir dest_log config_path w))"
proof (cases "\<not> exists dest_log w \<or> refresh")
  case False
  then show ?thesis by (simp add: log_step_def grows_emit)
next
  case True
  obtain r w1 where p: "parse_tboard_files rel_dir w = (r, w1)" by (cases "parse_tboard_files rel_dir w")
  have g1: "grows w w1" using grows_parse_tboard [of w rel_dir] p by simp
  show ?thesis
  proof (cases r)
    case (Inl e)
    then show ?thesis using True p g1 by (simp add: log_step_def)
  next
    case (Inr generated_log)
    have "grows w1 (snd (and_then (mkdir_parents (parent dest_log) w1) (\<lambda>w.
               (None,
                emit ([SetupLogging (parent dest_log)] @
                      map (LogInfo ''tboard-parser'') generated_log @
                      [Evaluation \<lparr>config = config_path, device = ''0'', mini_eval = 1,
                                   resume = pjoin rel_dir ''model_best.pth''\<rparr> ''tboard-parser'']) w))))"
      by (rule grows_and_then [OF grows_mkdir]) (auto intro!: grows_emit)
    then show ?thesis using True p Inr g1 by (auto simp: log_step_def intro: grows_trans)
  qed
qed

lemma grows_modernize_exp:
  "grows w (snd (modernize_exp checkpoints save_dir False key w))"
proof (cases "checkpoints key")
  case None
  then show ?thesis by (simp add: modernize_exp_def grows_refl)
next
  case (Some entry)
  show ?thesis
  proof (cases "timestamp entry")
    case None
    then show ?thesis using Some by (simp add: modernize_exp_def grows_refl)
  next
    case (Some rel_dir)
    show ?thesis
      unfolding modernize_exp_steps [where checkpoints = checkpoints and key = key,
                  OF \<open>checkpoints key = Some entry\<close> Some] Let_def
      by (intro grows_and_then grows_mkdir grows_copy_step grows_log_step)
  qed
qed

lemma grows_modernize_exp_dir:
  "grows w (snd (modernize_exp_dir experiments checkpoints save_dir False w))"
proof (induction experiments arbitrary: w)
  case Nil
  show ?case by (simp add: grows_refl)
next
  case (Cons key experiments)
  show ?case
    by (simp only: modernize_exp_dir.simps) (intro grows_and_then grows_modernize_exp Cons.IH)
qed

lemmas run_defs = modernize_exp_def sample_ckpts_def tb_world_def clean_stream_def pjoin_def parent_def
     mkdir_parents_def lineage_def exists_def is_file_def copyfile_def emit_def and_then_def
     parse_tboard_files_def glob_tfevents_def pname_def scalar_event_def event_row_def
     show_int_def show_nat.simps digit_char_def Let_def

text \<open>
  Claim C6.  In a run of \<open>modernize_exp_dir\<close> without the refresh flag, whether it ends
  normally or with an exception, every file that was there before is still there with
  the same content, and every copy the run made went to a destination that did not exist
  before the run: for a destination config or model file that already exists no copy is
  made.  (\<open>refresh_overwrites\<close> below: with the flag set the copy replaces it.)
\<close>

theorem copies_never_overwrite:
  assumes "modernize_exp_dir experiments checkpoints save_dir False w = (r, w')"
  shows "(\<forall>p d. map_of (files w) p = Some d \<longrightarrow> map_of (files w') p = Some d) \<and>
         (\<exists>es. trace w' = trace w @ es \<and>
               (\<forall>src dst. CopyFile src dst \<in> set es \<longrightarrow> \<not> exists dst w))"
  using grows_modernize_exp_dir [of w experiments checkpoints save_dir] assms
  by (simp add: grows_def)

theorem copies_never_overwrite_witness:
  "map_of (files (snd (modernize_exp_dir [''exp1''] sample_ckpts ''data/saved'' False stale_world)))
     ''data/saved/models/exp1/run1/config.json'' = Some \<lparr>text_lines = [''stale''], tf_events = []\<rparr> \<and>
   (\<forall>src. CopyFile src ''data/saved/models/exp1/run1/config.json'' \<notin>
            set (trace (snd (modernize_exp_dir [''exp1''] sample_ckpts ''data/saved'' False stale_world))))"
proof -
  have before: "map_of (files stale_world) ''data/saved/models/exp1/run1/config.json'' =
                  Some \<lparr>text_lines = [''stale''], tf_events = []\<rparr>"
    and there: "exists ''data/saved/models/exp1/run1/config.json'' stale_world"
    and quiet: "trace stale_world = []"
    by (simp_all add: stale_world_def exists_def is_file_def)
  show ?thesis
    using copies_never_overwrite [OF prod.collapse [symmetric],
            where experiments = "[''exp1'']" and checkpoints = sample_ckpts
              and save_dir = "''data/saved''" and w = stale_world] before there quiet
    by auto
qed

lemma refresh_overwrites:
  "map_of (files (snd (modernize_exp_dir [''exp1''] sample_ckpts ''data/saved'' True stale_world)))
     ''data/saved/models/exp1/run1/config.json'' = Some \<lparr>text_lines = [''{}''], tf_events = []\<rparr>"
  by (simp add: run_defs stale_world_def)

subsection \<open>Re-runs, the backup and the evaluation\<close>

lemma emit_emit [simp]: "emit es' (emit es w) = emit (es @ es') w"
  by (simp add: emit_def)

lemma emit_Nil [simp]: "emit [] w = w"
  by (simp add: emit_def)

lemma wf_tree_emit [simp]: "wf_tree (emit es w) = wf_tree w"
  by (simp add: wf_tree_def is_file_def)

lemma modernized_emit [simp]: "modernized c s k (emit es w) = modernized c s k w"
  by (simp add: modernized_def split: option.splits)

lemma backed_up_emit [simp]: "backed_up s c k (emit es w) = backed_up s c k w"
  by (simp add: backed_up_def split: option.splits prod.splits)

lemma standardize_ready_emit [simp]: "standardize_ready s c k (emit es w) = standardize_ready s c k w"
  by (simp add: standardize_ready_def split: option.splits prod.splits)

lemma mkdir_there:
  assumes "wf_tree w" and "is_file p w"
  shows "mkdir_parents (parent p) w = (None, emit [Mkdir (parent p)] w)"
proof -
  obtain d where "map_of (files w) p = Some d" using assms(2) by (auto simp: is_file_def)
  then have "(p, d) \<in> set (files w)" by (rule map_of_SomeD)
  then have anc: "\<forall>a \<in> set (lineage (parent p)). a \<in> set (dirs w)"
    using assms(1) by (auto simp: wf_tree_def list_all_iff)
  have nofile: "\<forall>a \<in> set (dirs w). \<not> is_file a w"
    using assms(1) by (auto simp: wf_tree_def list_all_iff)
  have f1: "filter (\<lambda>d. is_file d w) (lineage (parent p)) = []"
    using anc nofile by (auto simp: filter_empty_conv)
  have f2: "filter (\<lambda>d. d \<notin> set (dirs w)) (lineage (parent p)) = []"
    using anc by (auto simp: filter_empty_conv)
  show ?thesis by (simp add: mkdir_parents_def f1 f2 emit_def)
qed

lemma copy_step_skip:
  "is_file dst w \<Longrightarrow> copy_step False a b src dst w = (None, emit [Print b] w)"
  by (simp add: copy_step_def exists_def)

lemma log_step_skip:
  "is_file dest_log w \<Longrightarrow>
   log_step False rel_dir dest_log config_path w =
     (None, emit [Print (''generated log found at '' @ dest_log @ '', skipping...'')] w)"
  by (simp add: log_step_def exists_def)

lemma modernize_exp_again:
  assumes "wf_tree w" and "modernized checkpoints save_dir key w"
  shows "\<exists>es. modernize_exp checkpoints save_dir False key w = (None, emit es w) \<and> list_all quiet es"
proof -
  obtain entry rel_dir where e: "checkpoints key = Some entry" "timestamp entry = Some rel_dir"
    using assms(2) by (auto simp: modernized_def split: option.splits)
  let ?ts = "last (split CHR ''/'' rel_dir)"
  have c: "is_file (canonical save_dir ''models'' key ?ts ''config.json'') w"
    and m: "is_file (canonical save_dir ''models'' key ?ts ''model_best.pth'') w"
    and l: "is_file (canonical save_dir ''log'' key ?ts ''info.log'') w"
    using assms(2) e by (simp_all add: modernized_def Let_def)
  show ?thesis
    unfolding modernize_exp_steps [where checkpoints = checkpoints and key = key, OF e] Let_def
    apply (simp add: mkdir_there [OF assms(1) c] copy_step_skip c m l log_step_skip)
    apply (rule exI, rule conjI, rule refl)
    apply (simp add: quiet_def)
    done
qed

lemma modernize_exp_dir_again:
  assumes "wf_tree w" and "\<forall>key \<in> set experiments. modernized checkpoints save_dir key w"
  shows "\<exists>es. modernize_exp_dir experiments checkpoints save_dir False w = (None, emit es w) \<and>
              list_all quiet es"
  using assms
proof (induction experiments arbitrary: w)
  case Nil
  have "modernize_exp_dir [] checkpoints save_dir False w = (None, emit [] w) \<and> list_all quiet []"
    by simp
  then show ?case by blast
next
  case (Cons key experiments)
  obtain es1 where 1: "modernize_exp checkpoints save_dir False key w = (None, emit es1 w)"
      "list_all quiet es1"
    using modernize_exp_again [of w checkpoints save_dir key] Cons.prems by auto
  obtain es2 where 2: "modernize_exp_dir experiments checkpoints save_dir False (emit es1 w) =
                         (None, emit es2 (emit es1 w))" "list_all quiet es2"
    using Cons.IH [of "emit es1 w"] Cons.prems by auto
  have "modernize_exp_dir (key # experiments) checkpoints save_dir False w = (None, emit (es1 @ es2) w)
        \<and> list_all quiet (es1 @ es2)"
    using 1 2 by simp
  then show ?case by blast
qed

lemma standardize_exp_steps:
  assumes "checkpoints key = Some entry" and "timestamp entry = Some ts" and "epoch entry = Some ep"
  shows "standardize_exp save_dir checkpoints refresh key w =
     (let log_path = canonical save_dir ''log'' key ts ''info.log'';
          config_path = canonical save_dir ''models'' key ts ''config.json'';
          model_path = canonical save_dir ''models'' key ts (''checkpoint-epoch'' @ show_int ep @ ''.pth'')
      in if \<not> exists log_path w then (Some (AssertionError ''log was not found''), w)
         else if \<not> exists config_path w then (Some (AssertionError ''config was not found''), w)
         else if \<not> exists model_path w then (Some (AssertionError ''model was not found''), w)
         else if \<not> exists (log_path @ ''.backup'') w \<or> refresh
              then migrate_step log_path config_path model_path ep w
              else (None, emit [Print (''backup log found at '' @ (log_path @ ''.backup'') @ '', skipping...'')] w))"
  unfolding standardize_exp_def migrate_step_def canonical_def Let_def
  using assms by simp

lemma standardize_exp_again:
  assumes "backed_up save_dir checkpoints key w"
  shows "\<exists>es. snd (standardize_exp save_dir checkpoints False key w) = emit es w \<and> list_all quiet es \<and>
              (standardize_ready save_dir checkpoints key w \<longrightarrow>
                 fst (standardize_exp save_dir checkpoints False key w) = None)"
proof -
  obtain entry ts ep where e: "checkpoints key = Some entry" "timestamp entry = Some ts"
      "epoch entry = Some ep"
    using assms by (auto simp: backed_up_def split: option.splits prod.splits)
  have b: "exists (canonical save_dir ''log'' key ts ''info.log'' @ ''.backup'') w"
    using assms e by (simp add: backed_up_def)
  let ?R = "standardize_exp save_dir checkpoints False key w"
  have "snd ?R = emit [] w \<or>
        (\<exists>s. snd ?R = emit [Print s] w \<and> fst ?R = None)"
    unfolding standardize_exp_steps [where checkpoints = checkpoints and key = key, OF e] Let_def
    using b by (simp del: emit_Nil) blast
  moreover have "fst ?R = None" if "standardize_ready save_dir checkpoints key w"
    unfolding standardize_exp_steps [where checkpoints = checkpoints and key = key, OF e] Let_def
    using b that e by (simp add: standardize_ready_def)
  moreover have "list_all quiet []" "\<And>s. list_all quiet [Print s]"
    by (simp_all add: quiet_def)
  ultimately show ?thesis by metis
qed

lemma standardize_exp_dir_again:
  assumes "\<forall>key \<in> set experiments. backed_up save_dir checkpoints key w"
  shows "\<exists>es. snd (standardize_exp_dir experiments save_dir checkpoints False w) = emit es w \<and>
              list_all quiet es \<and>
              ((\<forall>key \<in> set experiments. standardize_ready save_dir checkpoints key w) \<longrightarrow>
                 fst (standardize_exp_dir experiments save_dir checkpoints False w) = None)"
  using assms
proof (induction experiments arbitrary: w)
  case Nil
  show ?case by (intro exI [of _ "[]"]) simp
next
  case (Cons key experiments)
  let ?S = "standardize_exp save_dir checkpoints False key w"
  obtain es1 where 1: "snd ?S = emit es1 w" "list_all quiet es1"
      "standardize_ready save_dir checkpoints key w \<longrightarrow> fst ?S = None"
    using standardize_exp_again [of save_dir checkpoints key w] Cons.prems by auto
  let ?L = "standardize_exp_dir experiments save_dir checkpoints False (emit es1 w)"
  obtain es2 where 2: "snd ?L = emit es2 (emit es1 w)" "list_all quiet es2"
      "(\<forall>key \<in> set experiments. standardize_ready save_dir checkpoints key w) \<longrightarrow> fst ?L = None"
    using Cons.IH [of "emit es1 w"] Cons.prems by auto
  show ?case
  proof (cases "fst ?S")
    case None
    then have S: "?S = (None, emit es1 w)" using 1(1) by (metis prod.collapse)
    have "snd (standardize_exp_dir (key # experiments) save_dir checkpoints False w) = emit (es1 @ es2) w"
      using S 2(1) by simp
    moreover have "list_all quiet (es1 @ es2)" using 1(2) 2(2) by simp
    moreover have "fst (standardize_exp_dir (key # experiments) save_dir checkpoints False w) = fst ?L"
      using S by simp
    ultimately show ?thesis using 2(3) by auto
  next
    case (Some e)
    then have S: "?S = (Some e, emit es1 w)" using 1(1) by (metis prod.collapse)
    have "standardize_exp_dir (key # experiments) save_dir checkpoints False w = (Some e, emit es1 w)"
      using S by simp
    then show ?thesis using 1(2,3) Some by auto
  qed
qed

text \<open>
  Claim C7.  A second run without the refresh flag is a no-op.  For \<open>modernize\<close>: in a
  well-formed tree in which every experiment of the run has its copied config, its copied
  model and its generated log, the run ends normally, the files and directories are what
  they were, and the only effects are messages and \<open>mkdir\<close> calls on directories that
  exist: no copy, no log row, no evaluation.  For \<open>standardize\<close>: when the backup log
  of every experiment of the run exists, the same holds of the files, the directories and
  the effects, and the run ends normally when the three files it asserts are there.
\<close>

theorem rerun_is_noop:
  "(wf_tree w \<and> (\<forall>key \<in> set experiments. modernized checkpoints save_dir key w) \<longrightarrow>
      (\<exists>es. modernize_exp_dir experiments checkpoints save_dir False w = (None, emit es w) \<and>
            list_all quiet es)) \<and>
   ((\<forall>key \<in> set experiments. backed_up save_dir checkpoints key w) \<longrightarrow>
      (\<exists>es. snd (standardize_exp_dir experiments save_dir checkpoints False w) = emit es w \<and>
            list_all quiet es \<and>
            ((\<forall>key \<in> set experiments. standardize_ready save_dir checkpoints key w) \<longrightarrow>
               fst (standardize_exp_dir experiments save_dir checkpoints False w) = None)))"
  using modernize_exp_dir_again [of w experiments checkpoints save_dir]
        standardize_exp_dir_again [of experiments save_dir checkpoints w]
  by blast

theorem rerun_is_noop_witness:
  "(\<exists>es. modernize_exp_dir [''exp1''] sample_ckpts ''data/saved'' False done_world =
           (None, emit es done_world) \<and> list_all quiet es) \<and>
   (\<exists>es. standardize_exp_dir [''exp2''] ''data/saved'' sample_ckpts False backed_world =
           (None, emit es backed_world) \<and> list_all quiet es)"
proof -
  have wf: "wf_tree done_world"
    by (simp add: wf_tree_def done_world_def lineage_def parent_def is_file_def)
  have m: "\<forall>key \<in> set [''exp1'']. modernized sample_ckpts ''data/saved'' key done_world"
    by (simp add: modernized_def sample_ckpts_def canonical_def pjoin_def is_file_def done_world_def)
  have b: "\<forall>key \<in> set [''exp2'']. backed_up ''data/saved'' sample_ckpts key backed_world"
    by (simp add: backed_up_def sample_ckpts_def canonical_def pjoin_def exists_def is_file_def
          backed_world_def)
  have r: "\<forall>key \<in> set [''exp2'']. standardize_ready ''data/saved'' sample_ckpts key backed_world"
    by (simp add: standardize_ready_def sample_ckpts_def canonical_def pjoin_def exists_def
          is_file_def backed_world_def show_int_def show_nat_100)
  from rerun_is_noop [where w = done_world and experiments = "[''exp1'']"
         and checkpoints = sample_ckpts and save_dir = "''data/saved''"] wf m
  have 1: "\<exists>es. modernize_exp_dir [''exp1''] sample_ckpts ''data/saved'' False done_world =
           (None, emit es done_world) \<and> list_all quiet es"
    by blast
  from rerun_is_noop [where w = backed_world and experiments = "[''exp2'']"
         and checkpoints = sample_ckpts and save_dir = "''data/saved''"] b r
  obtain es where "snd (standardize_exp_dir [''exp2''] ''data/saved'' sample_ckpts False backed_world) =
        emit es backed_world" "list_all quiet es"
      "fst (standardize_exp_dir [''exp2''] ''data/saved'' sample_ckpts False backed_world) = None"
    by blast
  then have 2: "\<exists>es. standardize_exp_dir [''exp2''] ''data/saved'' sample_ckpts False backed_world =
           (None, emit es backed_world) \<and> list_all quiet es"
    by (metis prod.collapse)
  from 1 2 show ?thesis by blast
qed

lemma new_effects: "trace w' = trace w @ es \<Longrightarrow> drop (length (trace w)) (trace w') = es"
  by simp

lemma migrate_step_cases:
  assumes "map_of (files w) log_path = Some d"
      and "migrate_step log_path config_path model_path ep w = (r, w')"
  shows "(map_of (files w') log_path = Some d \<and>
          Unlink log_path \<notin> set (drop (length (trace w)) (trace w')))
       \<or> (map_of (files w') (log_path @ ''.backup'') = Some d \<and>
          (\<exists>w1 generated_log.
              copyfile log_path (log_path @ ''.backup'') w = (None, w1) \<and>
              parse_old_log (log_path @ ''.backup'') config_path ep w1 = Inr generated_log \<and>
              drop (length (trace w)) (trace w') =
                [CopyFile log_path (log_path @ ''.backup''), Unlink log_path,
                 SetupLogging (parent log_path)] @
                map (LogInfo ''log-gen'') generated_log @
                [Evaluation \<lparr>config = config_path, device = ''3'', mini_eval = 1,
                             resume = model_path\<rparr> ''log-gen'']))"
proof -
  let ?b = "log_path @ ''.backup''"
  have ne: "log_path \<noteq> ?b" by simp
  obtain c w1 where cp: "copyfile log_path ?b w = (c, w1)" by (cases "copyfile log_path ?b w")
  show ?thesis
  proof (cases c)
    case (Some e)
    then have "w1 = w" using cp assms(1) by (auto simp: copyfile_def split: if_splits)
    then have "w' = w" using assms(2) cp Some by (simp add: migrate_step_def)
    then show ?thesis using assms(1) by simp
  next
    case None
    then have w1: "w1 = emit [CopyFile log_path ?b] (w\<lparr>files := AList.update ?b d (files w)\<rparr>)"
      using cp assms(1) by (auto simp: copyfile_def split: if_splits)
    have log1: "map_of (files w1) log_path = Some d"
      using w1 assms(1) ne by (simp add: update_conv')
    have bak1: "map_of (files w1) ?b = Some d"
      using w1 by (simp add: update_conv')
    have tr1: "trace w1 = trace w @ [CopyFile log_path ?b]" using w1 by simp
    show ?thesis
    proof (cases "parse_old_log ?b config_path ep w1")
      case (Inl e)
      then have "w' = w1" using assms(2) cp None by (simp add: migrate_step_def)
      then show ?thesis using log1 tr1 ne by simp
    next
      case (Inr generated_log)
      have isf: "is_file log_path w1" using log1 by (simp add: is_file_def)
      let ?tail = "[SetupLogging (parent log_path)] @ map (LogInfo ''log-gen'') generated_log @
                   [Evaluation \<lparr>config = config_path, device = ''3'', mini_eval = 1,
                                resume = model_path\<rparr> ''log-gen'']"
      have w': "w' = emit ?tail (emit [Unlink log_path] (w1\<lparr>files := AList.delete log_path (files w1)\<rparr>))"
        using assms(2) cp None Inr isf by (simp add: migrate_step_def unlink_def)
      have "map_of (files w') ?b = Some d"
        using w' bak1 ne by (simp add: delete_conv')
      moreover have "trace w' = trace w @ ([CopyFile log_path ?b, Unlink log_path] @ ?tail)"
        using w' tr1 by simp
      then have "drop (length (trace w)) (trace w') = [CopyFile log_path ?b, Unlink log_path] @ ?tail"
        by (rule new_effects)
      ultimately show ?thesis using cp None Inr by simp
    qed
  qed
qed

text \<open>
  Within one run over one experiment of \<open>standardize_exp_dir\<close>, whatever the flag and
  however the processing ends: either the log file still has the content it had before and
  was not deleted, or the backup file has that content; in the second case the copy to the
  backup came first, the normalizer read the backup, and the deletion followed.
\<close>

lemma log_kept_or_backed_up:
  assumes "checkpoints key = Some entry" and "timestamp entry = Some ts" and "epoch entry = Some ep"
      and "log_path = canonical save_dir ''log'' key ts ''info.log''"
      and "config_path = canonical save_dir ''models'' key ts ''config.json''"
      and "model_path = canonical save_dir ''models'' key ts (''checkpoint-epoch'' @ show_int ep @ ''.pth'')"
      and "map_of (files w) log_path = Some d"
      and "standardize_exp save_dir checkpoints refresh key w = (r, w')"
  shows "(map_of (files w') log_path = Some d \<and>
          Unlink log_path \<notin> set (drop (length (trace w)) (trace w')))
       \<or> (map_of (files w') (log_path @ ''.backup'') = Some d \<and>
          (\<exists>w1 generated_log.
              copyfile log_path (log_path @ ''.backup'') w = (None, w1) \<and>
              parse_old_log (log_path @ ''.backup'') config_path ep w1 = Inr generated_log \<and>
              drop (length (trace w)) (trace w') =
                [CopyFile log_path (log_path @ ''.backup''), Unlink log_path,
                 SetupLogging (parent log_path)] @
                map (LogInfo ''log-gen'') generated_log @
                [Evaluation \<lparr>config = config_path, device = ''3'', mini_eval = 1,
                             resume = model_path\<rparr> ''log-gen'']))"
proof -
  note steps = standardize_exp_steps [where checkpoints = checkpoints and key = key,
                 OF assms(1,2,3), of save_dir refresh w, folded assms(4,5,6), unfolded Let_def]
  show ?thesis
  proof (cases "exists log_path w \<and> exists config_path w \<and> exists model_path w \<and>
                (\<not> exists (log_path @ ''.backup'') w \<or> refresh)")
    case True
    then have "migrate_step log_path config_path model_path ep w = (r, w')"
      using steps assms(8) by simp
    then show ?thesis by (rule migrate_step_cases [OF assms(7)])
  next
    case False
    then have "w' = w \<or> (\<exists>s. w' = emit [Print s] w)"
      using steps assms(8) by (auto split: if_splits)
    then show ?thesis using assms(7) by auto
  qed
qed

lemmas std_defs = standardize_exp_def sample_ckpts_def std_world_def pjoin_def parent_def pname_def stem_def
     exists_def is_file_def copyfile_def unlink_def emit_def and_then_def parse_old_log_def
     line_epoch_def line_marker_def line_took_def line_overrun_def
     show_int_def show_nat_100 Let_def

lemma standardize_sample_run:
  "standardize_exp ''data/saved'' sample_ckpts False ''exp2''
     (std_world [line_epoch, line_marker, line_took, line_overrun]) =
   (None,
    \<lparr>files =
       [(''data/saved/models/exp2/2019-07-01_12-00-00/config.json'',
           \<lparr>text_lines = [''{'', ''}''], tf_events = []\<rparr>),
        (''data/saved/models/exp2/2019-07-01_12-00-00/checkpoint-epoch100.pth'',
           \<lparr>text_lines = [''weights''], tf_events = []\<rparr>),
        (''data/saved/log/exp2/2019-07-01_12-00-00/info.log.backup'',
           \<lparr>text_lines = [line_epoch, line_marker, line_took, line_overrun], tf_events = []\<rparr>)],
     dirs = [''data'', ''data/saved'', ''data/saved/log'', ''data/saved/log/exp2'',
             ''data/saved/log/exp2/2019-07-01_12-00-00'', ''data/saved/models'',
             ''data/saved/models/exp2'', ''data/saved/models/exp2/2019-07-01_12-00-00''],
     trace =
       [CopyFile ''data/saved/log/exp2/2019-07-01_12-00-00/info.log''
          ''data/saved/log/exp2/2019-07-01_12-00-00/info.log.backup'',
        Unlink ''data/saved/log/exp2/2019-07-01_12-00-00/info.log'',
        SetupLogging ''data/saved/log/exp2/2019-07-01_12-00-00'',
        LogInfo ''log-gen'' ''This log was generated from an existing log for experiemnt 2019-07-01_12-00-00'',
        LogInfo ''log-gen'' ''Launching experiment with config:'',
        LogInfo ''log-gen'' ''{'',
        LogInfo ''log-gen'' ''}'',
        LogInfo ''log-gen'' line_epoch,
        LogInfo ''log-gen'' line_marker,
        LogInfo ''log-gen'' line_took,
        Evaluation
          \<lparr>config = ''data/saved/models/exp2/2019-07-01_12-00-00/config.json'', device = ''3'',
           mini_eval = 1,
           resume = ''data/saved/models/exp2/2019-07-01_12-00-00/checkpoint-epoch100.pth''\<rparr>
          ''log-gen'']\<rparr>)"
  by (simp add: std_defs)

lemma adds_refl: "adds P w w"
  by (simp add: adds_def)

lemma adds_trans: "adds P w w1 \<Longrightarrow> adds P w1 w2 \<Longrightarrow> adds P w w2"
  unfolding adds_def
proof -
  assume "\<exists>es. trace w1 = trace w @ es \<and> list_all P es"
     and "\<exists>es. trace w2 = trace w1 @ es \<and> list_all P es"
  then obtain es1 es2 where "trace w1 = trace w @ es1" "list_all P es1"
      "trace w2 = trace w1 @ es2" "list_all P es2" by blast
  then have "trace w2 = trace w @ (es1 @ es2) \<and> list_all P (es1 @ es2)" by simp
  then show "\<exists>es. trace w2 = trace w @ es \<and> list_all P es" by blast
qed

lemma adds_emit: "list_all P es \<Longrightarrow> adds P w (emit es w)"
  by (simp add: adds_def)

lemma adds_mkdir: "P (Mkdir p) \<Longrightarrow> adds P w (snd (mkdir_parents p w))"
  by (auto simp: mkdir_parents_def adds_def emit_def split: list.splits)

lemma adds_copyfile: "P (CopyFile src dst) \<Longrightarrow> adds P w (snd (copyfile src dst w))"
  by (auto simp: copyfile_def adds_def emit_def split: option.splits)

lemma adds_unlink: "P (Unlink p) \<Longrightarrow> adds P w (snd (unlink p w))"
  by (auto simp: unlink_def adds_def emit_def)

lemma adds_parse_tboard: "(\<And>s. P (Print s)) \<Longrightarrow> adds P w (snd (parse_tboard_files rel_dir w))"
  unfolding parse_tboard_files_def Let_def
  by (auto simp: adds_refl list_all_iff split: loop_end.splits intro!: adds_emit)

lemma adds_and_then:
  "adds P w (snd r) \<Longrightarrow> (\<And>w1. adds P w1 (snd (f w1))) \<Longrightarrow> adds P w (snd (and_then r f))"
  by (cases r) (auto simp: and_then_def split: option.splits intro: adds_trans)

lemma adds_copy_step:
  "(\<And>s. P (Print s)) \<Longrightarrow> P (CopyFile src dst) \<Longrightarrow> adds P w (snd (copy_step refresh a b src dst w))"
  unfolding copy_step_def
  by (auto intro!: adds_emit intro: adds_trans [OF adds_emit adds_copyfile])

lemma ends_eval_weaken: "adds not_eval w w' \<Longrightarrow> ends_eval X lg w w'"
  by (auto simp: adds_def ends_eval_def)

lemma ends_eval_emit:
  "list_all not_eval es0 \<Longrightarrow> ends_eval X lg w (emit (es0 @ [Evaluation X lg]) w)"
  by (auto simp: ends_eval_def)

lemma ends_eval_after: "adds not_eval w w1 \<Longrightarrow> ends_eval X lg w1 w2 \<Longrightarrow> ends_eval X lg w w2"
proof -
  assume "adds not_eval w w1" and "ends_eval X lg w1 w2"
  then obtain es1 es2 where 1: "trace w1 = trace w @ es1" "list_all not_eval es1"
      and 2: "trace w2 = trace w1 @ es2"
        "list_all not_eval es2 \<or> (\<exists>es0. es2 = es0 @ [Evaluation X lg] \<and> list_all not_eval es0)"
    unfolding adds_def ends_eval_def by blast
  have t: "trace w2 = trace w @ (es1 @ es2)" using 1 2 by simp
  from 2(2) show ?thesis
  proof
    assume "list_all not_eval es2"
    then have "list_all not_eval (es1 @ es2)" using 1 by simp
    then show ?thesis using t unfolding ends_eval_def by blast
  next
    assume "\<exists>es0. es2 = es0 @ [Evaluation X lg] \<and> list_all not_eval es0"
    then obtain es0 where "es2 = es0 @ [Evaluation X lg]" "list_all not_eval es0" by blast
    then have "es1 @ es2 = (es1 @ es0) @ [Evaluation X lg] \<and> list_all not_eval (es1 @ es0)"
      using 1 by simp
    then show ?thesis using t unfolding ends_eval_def by blast
  qed
qed

lemma ends_eval_and_then:
  "adds not_eval w (snd r) \<Longrightarrow> (\<And>w1. ends_eval X lg w1 (snd (f w1))) \<Longrightarrow>
   ends_eval X lg w (snd (and_then r f))"
  by (cases r) (auto simp: and_then_def split: option.splits intro: ends_eval_after ends_eval_weaken)

lemma ends_eval_unique:
  assumes "ends_eval X lg w w'"
      and "Evaluation args lg' \<in> set (drop (length (trace w)) (trace w'))"
  shows "args = X \<and> lg' = lg \<and> last (trace w') = Evaluation args lg'"
proof -
  obtain es where es: "trace w' = trace w @ es"
      "list_all not_eval es \<or> (\<exists>es0. es = es0 @ [Evaluation X lg] \<and> list_all not_eval es0)"
    using assms(1) unfolding ends_eval_def by blast
  have mem: "Evaluation args lg' \<in> set es" using assms(2) es(1) by simp
  have "\<not> not_eval (Evaluation args lg')" by (simp add: not_eval_def)
  then have no: "\<not> list_all not_eval es" using mem by (auto simp: list_all_iff)
  then obtain es0 where es0: "es = es0 @ [Evaluation X lg]" "list_all not_eval es0"
    using es(2) by blast
  have "Evaluation args lg' \<notin> set es0"
    using es0(2) \<open>\<not> not_eval (Evaluation args lg')\<close> by (auto simp: list_all_iff)
  then have "Evaluation args lg' = Evaluation X lg" using mem es0(1) by simp
  then show ?thesis using es(1) es0(1) by simp
qed

lemma ends_eval_log_step:
  "ends_eval \<lparr>config = config_path, device = ''0'', mini_eval = 1,
              resume = pjoin rel_dir ''model_best.pth''\<rparr> ''tboard-parser'' w
     (snd (log_step refresh rel_dir dest_log config_path w))"
proof (cases "\<not> exists dest_log w \<or> refresh")
  case False
  then show ?thesis
    by (auto simp: log_step_def not_eval_def intro!: ends_eval_weaken adds_emit)
next
  case True
  obtain r w1 where p: "parse_tboard_files rel_dir w = (r, w1)" by (cases "parse_tboard_files rel_dir w")
  have a1: "adds not_eval w w1"
    using adds_parse_tboard [of not_eval w rel_dir] p by (simp add: not_eval_def)
  show ?thesis
  proof (cases r)
    case (Inl e)
    then show ?thesis using True p a1 by (simp add: log_step_def ends_eval_weaken)
  next
    case (Inr generated_log)
    let ?X = "\<lparr>config = config_path, device = ''0'', mini_eval = 1,
               resume = pjoin rel_dir ''model_best.pth''\<rparr>"
    have "ends_eval ?X ''tboard-parser'' w1
            (snd (and_then (mkdir_parents (parent dest_log) w1) (\<lambda>w.
               (None,
                emit ([SetupLogging (parent dest_log)] @
                      map (LogInfo ''tboard-parser'') generated_log @
                      [Evaluation ?X ''tboard-parser'']) w))))"
    proof (rule ends_eval_and_then)
      show "adds not_eval w1 (snd (mkdir_parents (parent dest_log) w1))"
        by (rule adds_mkdir) (simp add: not_eval_def)
    next
      fix w2
      have "list_all not_eval ([SetupLogging (parent dest_log)] @ map (LogInfo ''tboard-parser'') generated_log)"
        by (simp add: list_all_iff not_eval_def)
      from ends_eval_emit [OF this, of ?X "''tboard-parser''" w2]
      show "ends_eval ?X ''tboard-parser'' w2
              (snd (None :: error option,
                    emit ([SetupLogging (parent dest_log)] @
                          map (LogInfo ''tboard-parser'') generated_log @
                          [Evaluation ?X ''tboard-parser'']) w2))"
        by simp
    qed
    then show ?thesis using True p Inr a1 by (auto simp: log_step_def intro: ends_eval_after)
  qed
qed

lemma ends_eval_modernize_exp:
  assumes "checkpoints key = Some entry" and "timestamp entry = Some rel_dir"
  shows "ends_eval \<lparr>config = canonical save_dir ''models'' key (last (split CHR ''/'' rel_dir)) ''config.json'',
                    device = ''0'', mini_eval = 1, resume = pjoin rel_dir ''model_best.pth''\<rparr>
           ''tboard-parser'' w (snd (modernize_exp checkpoints save_dir refresh key w))"
  unfolding modernize_exp_steps [where checkpoints = checkpoints and key = key, OF assms] Let_def
  by (intro ends_eval_and_then adds_and_then adds_mkdir adds_copy_step ends_eval_log_step)
     (simp_all add: not_eval_def)

lemma ends_eval_migrate_step:
  "ends_eval \<lparr>config = config_path, device = ''3'', mini_eval = 1, resume = model_path\<rparr> ''log-gen'' w
     (snd (migrate_step log_path config_path model_path ep w))"
  unfolding migrate_step_def
proof (rule ends_eval_and_then)
  show "adds not_eval w (snd (copyfile log_path (log_path @ ''.backup'') w))"
    by (rule adds_copyfile) (simp add: not_eval_def)
next
  fix w1
  let ?X = "\<lparr>config = config_path, device = ''3'', mini_eval = 1, resume = model_path\<rparr>"
  show "ends_eval ?X ''log-gen'' w1
          (snd (case parse_old_log (log_path @ ''.backup'') config_path ep w1 of
                  Inl e \<Rightarrow> (Some e, w1)
                | Inr generated_log \<Rightarrow>
                    and_then (unlink log_path w1) (\<lambda>w.
                      (None,
                       emit ([SetupLogging (parent log_path)] @
                             map (LogInfo ''log-gen'') generated_log @
                             [Evaluation ?X ''log-gen'']) w))))"
  proof (cases "parse_old_log (log_path @ ''.backup'') config_path ep w1")
    case (Inl e)
    then show ?thesis by (simp add: ends_eval_weaken adds_refl)
  next
    case (Inr generated_log)
    have "ends_eval ?X ''log-gen'' w1
            (snd (and_then (unlink log_path w1) (\<lambda>w.
                      (None,
                       emit ([SetupLogging (parent log_path)] @
                             map (LogInfo ''log-gen'') generated_log @
                             [Evaluation ?X ''log-gen'']) w))))"
    proof (rule ends_eval_and_then)
      show "adds not_eval w1 (snd (unlink log_path w1))"
        by (rule adds_unlink) (simp add: not_eval_def)
    next
      fix w2
      have "list_all not_eval ([SetupLogging (parent log_path)] @ map (LogInfo ''log-gen'') generated_log)"
        by (simp add: list_all_iff not_eval_def)
      from ends_eval_emit [OF this, of ?X "''log-gen''" w2]
      show "ends_eval ?X ''log-gen'' w2
              (snd (None :: error option,
                    emit ([SetupLogging (parent log_path)] @
                          map (LogInfo ''log-gen'') generated_log @
                          [Evaluation ?X ''log-gen'']) w2))"
        by simp
    qed
    then show ?thesis using Inr by simp
  qed
qed

lemma ends_eval_standardize_exp:
  assumes "checkpoints key = Some entry" and "timestamp entry = Some ts" and "epoch entry = Some ep"
  shows "ends_eval \<lparr>config = canonical save_dir ''models'' key ts ''config.json'', device = ''3'',
                    mini_eval = 1,
                    resume = canonical save_dir ''models'' key ts (''checkpoint-epoch'' @ show_int ep @ ''.pth'')\<rparr>
           ''log-gen'' w (snd (standardize_exp save_dir checkpoints refresh key w))"
  unfolding standardize_exp_steps [where checkpoints = checkpoints and key = key, OF assms] Let_def
  by (auto simp: not_eval_def intro!: ends_eval_migrate_step ends_eval_weaken adds_refl adds_emit)

text \<open>
  Claim C3, as amended.  In both pipelines an experiment is evaluated at most once, as the
  last effect, after the rows of the canonical log went to the logger; the config argument
  is the config file in the canonical location.  The resume argument is, for
  \<open>standardize\<close>, the checkpoint of the given epoch in the canonical location, and for
  \<open>modernize\<close> the file \<open>model_best.pth\<close> of the source directory, from which the
  canonical copy is made.
\<close>

theorem evaluation_arguments:
  "(checkpoints key = Some entry \<and> timestamp entry = Some rel_dir \<longrightarrow>
      (\<forall>args lg.
         Evaluation args lg \<in>
           set (drop (length (trace w)) (trace (snd (modernize_exp checkpoints save_dir refresh key w)))) \<longrightarrow>
         config args = canonical save_dir ''models'' key (last (split CHR ''/'' rel_dir)) ''config.json'' \<and>
         resume args = pjoin rel_dir ''model_best.pth'' \<and>
         last (trace (snd (modernize_exp checkpoints save_dir refresh key w))) = Evaluation args lg)) \<and>
   (checkpoints key = Some entry \<and> timestamp entry = Some ts \<and> epoch entry = Some ep \<longrightarrow>
      (\<forall>args lg.
         Evaluation args lg \<in>
           set (drop (length (trace w)) (trace (snd (standardize_exp save_dir checkpoints refresh key w)))) \<longrightarrow>
         config args = canonical save_dir ''models'' key ts ''config.json'' \<and>
         resume args = canonical save_dir ''models'' key ts (''checkpoint-epoch'' @ show_int ep @ ''.pth'') \<and>
         last (trace (snd (standardize_exp save_dir checkpoints refresh key w))) = Evaluation args lg))"
proof (intro conjI impI allI)
  fix args lg
  assume e: "checkpoints key = Some entry \<and> timestamp entry = Some rel_dir"
     and m: "Evaluation args lg \<in>
           set (drop (length (trace w)) (trace (snd (modernize_exp checkpoints save_dir refresh key w))))"
  note u = ends_eval_unique [OF ends_eval_modernize_exp [of checkpoints key entry rel_dir save_dir w refresh] m]
  show "config args = canonical save_dir ''models'' key (last (split CHR ''/'' rel_dir)) ''config.json''"
    and "resume args = pjoin rel_dir ''model_best.pth''"
    and "last (trace (snd (modernize_exp checkpoints save_dir refresh key w))) = Evaluation args lg"
    using u e by simp_all
next
  fix args lg
  assume e: "checkpoints key = Some entry \<and> timestamp entry = Some ts \<and> epoch entry = Some ep"
     and m: "Evaluation args lg \<in>
           set (drop (length (trace w)) (trace (snd (standardize_exp save_dir checkpoints refresh key w))))"
  note u = ends_eval_unique [OF ends_eval_standardize_exp [of checkpoints key entry ts ep save_dir w refresh] m]
  show "config args = canonical save_dir ''models'' key ts ''config.json''"
    and "resume args = canonical save_dir ''models'' key ts (''checkpoint-epoch'' @ show_int ep @ ''.pth'')"
    and "last (trace (snd (standardize_exp save_dir checkpoints refresh key w))) = Evaluation args lg"
    using u e by simp_all
qed

lemma modernize_sample_run:
  "modernize_exp sample_ckpts ''data/saved'' False ''exp1'' (tb_world clean_stream) =
   (None,
    \<lparr>files =
       [(''old/run1/events.out.tfevents.1561982400'', \<lparr>text_lines = [], tf_events = clean_stream\<rparr>),
        (''old/run1/config.json'', \<lparr>text_lines = [''{}''], tf_events = []\<rparr>),
        (''old/run1/model_best.pth'', \<lparr>text_lines = [''weights''], tf_events = []\<rparr>),
        (''data/saved/models/exp1/run1/config.json'', \<lparr>text_lines = [''{}''], tf_events = []\<rparr>),
        (''data/saved/models/exp1/run1/model_best.pth'', \<lparr>text_lines = [''weights''], tf_events = []\<rparr>)],
     dirs =
       [''old'', ''old/run1'', ''data'', ''data/saved'', ''data/saved/models'',
        ''data/saved/models/exp1'', ''data/saved/models/exp1/run1'', ''data/saved/log'',
        ''data/saved/log/exp1'', ''data/saved/log/exp1/run1''],
     trace =
       [Mkdir ''data/saved/models/exp1/run1'',
        Print ''copying config: old/run1/config.json -> data/saved/models/exp1/run1/config.json'',
        CopyFile ''old/run1/config.json'' ''data/saved/models/exp1/run1/config.json'',
        Print ''copying model: old/run1/model_best.pth -> data/saved/models/exp1/run1/model_best.pth'',
        CopyFile ''old/run1/model_best.pth'' ''data/saved/models/exp1/run1/model_best.pth'',
        Print ''2019-07-01:12h00m00s step: 2000, train/loss: 0.5'',
        Print ''parsed 2 summaries'',
        Mkdir ''data/saved/log/exp1/run1'',
        SetupLogging ''data/saved/log/exp1/run1'',
        LogInfo ''tboard-parser''
          ''This log was generated from tensorboard file events.out.tfevents.1561982400'',
        LogInfo ''tboard-parser'' ''2019-07-01:12h00m00s step: 2000, train/loss: 0.5'',
        Evaluation
          \<lparr>config = ''data/saved/models/exp1/run1/config.json'', device = ''0'', mini_eval = 1,
           resume = ''old/run1/model_best.pth''\<rparr> ''tboard-parser'']\<rparr>)"
  by (simp add: run_defs)

theorem evaluation_arguments_witness:
  "last (trace (snd (modernize_exp sample_ckpts ''data/saved'' False ''exp1'' (tb_world clean_stream)))) =
     Evaluation \<lparr>config = ''data/saved/models/exp1/run1/config.json'', device = ''0'', mini_eval = 1,
                 resume = ''old/run1/model_best.pth''\<rparr> ''tboard-parser'' \<and>
   canonical ''data/saved'' ''models'' ''exp1'' (last (split CHR ''/'' ''old/run1'')) ''config.json'' =
     ''data/saved/models/exp1/run1/config.json'' \<and>
   pjoin ''old/run1'' ''model_best.pth'' = ''old/run1/model_best.pth'' \<and>
   last (trace (snd (standardize_exp ''data/saved'' sample_ckpts False ''exp2''
                      (std_world [line_epoch, line_marker, line_took, line_overrun])))) =
     Evaluation \<lparr>config = ''data/saved/models/exp2/2019-07-01_12-00-00/config.json'', device = ''3'',
                 mini_eval = 1,
                 resume = ''data/saved/models/exp2/2019-07-01_12-00-00/checkpoint-epoch100.pth''\<rparr>
       ''log-gen'' \<and>
   canonical ''data/saved'' ''models'' ''exp2'' ''2019-07-01_12-00-00''
       (''checkpoint-epoch'' @ show_int 100 @ ''.pth'') =
     ''data/saved/models/exp2/2019-07-01_12-00-00/checkpoint-epoch100.pth''"
proof -
  let ?Xm = "\<lparr>config = ''data/saved/models/exp1/run1/config.json'', device = ''0'', mini_eval = 1,
              resume = ''old/run1/model_best.pth''\<rparr>"
  let ?Xs = "\<lparr>config = ''data/saved/models/exp2/2019-07-01_12-00-00/config.json'', device = ''3'',
              mini_eval = 1,
              resume = ''data/saved/models/exp2/2019-07-01_12-00-00/checkpoint-epoch100.pth''\<rparr>"
  let ?E1 = "\<lparr>timestamp = Some ''old/run1'', epoch = None\<rparr>"
  let ?E2 = "\<lparr>timestamp = Some ''2019-07-01_12-00-00'', epoch = Some 100\<rparr>"
  let ?w1 = "tb_world clean_stream"
  let ?w2 = "std_world [line_epoch, line_marker, line_took, line_overrun]"
  have e1: "sample_ckpts ''exp1'' = Some ?E1 \<and> timestamp ?E1 = Some ''old/run1''"
    by (simp add: sample_ckpts_def)
  have e2: "sample_ckpts ''exp2'' = Some ?E2 \<and> timestamp ?E2 = Some ''2019-07-01_12-00-00'' \<and>
            epoch ?E2 = Some 100"
    by (simp add: sample_ckpts_def)
  have m1: "Evaluation ?Xm ''tboard-parser'' \<in>
              set (drop (length (trace ?w1))
                     (trace (snd (modernize_exp sample_ckpts ''data/saved'' False ''exp1'' ?w1))))"
    by (simp add: modernize_sample_run) (simp add: tb_world_def)
  have m2: "Evaluation ?Xs ''log-gen'' \<in>
              set (drop (length (trace ?w2))
                     (trace (snd (standardize_exp ''data/saved'' sample_ckpts False ''exp2'' ?w2))))"
    by (simp add: standardize_sample_run) (simp add: std_world_def)
  have 1: "config ?Xm = canonical ''data/saved'' ''models'' ''exp1'' (last (split CHR ''/'' ''old/run1'')) ''config.json'' \<and>
           resume ?Xm = pjoin ''old/run1'' ''model_best.pth'' \<and>
           last (trace (snd (modernize_exp sample_ckpts ''data/saved'' False ''exp1'' ?w1))) =
             Evaluation ?Xm ''tboard-parser''"
    using evaluation_arguments [where checkpoints = sample_ckpts and key = "''exp1''" and entry = ?E1
            and rel_dir = "''old/run1''" and save_dir = "''data/saved''" and refresh = False
            and w = ?w1] e1 m1
    by blast
  have 2: "config ?Xs = canonical ''data/saved'' ''models'' ''exp2'' ''2019-07-01_12-00-00'' ''config.json'' \<and>
           resume ?Xs = canonical ''data/saved'' ''models'' ''exp2'' ''2019-07-01_12-00-00''
                          (''checkpoint-epoch'' @ show_int 100 @ ''.pth'') \<and>
           last (trace (snd (standardize_exp ''data/saved'' sample_ckpts False ''exp2'' ?w2))) =
             Evaluation ?Xs ''log-gen''"
    using evaluation_arguments [where checkpoints = sample_ckpts and key = "''exp2''" and entry = ?E2
            and ts = "''2019-07-01_12-00-00''" and ep = 100 and save_dir = "''data/saved''"
            and refresh = False and w = ?w2] e2 m2
    by blast
  from 1 2 show ?thesis by simp
qed

text \<open>
  Claim C3 as stated asks for the copied checkpoint in both pipelines.  In this run of
  \<open>modernize_exp_dir\<close> the model is copied to the canonical location, and the evaluation
  resumes from the source file.
\<close>

theorem evaluation_resume_counterexample:
  "last (trace (snd (modernize_exp_dir [''exp1''] sample_ckpts ''data/saved'' False (tb_world clean_stream)))) =
     Evaluation \<lparr>config = ''data/saved/models/exp1/run1/config.json'', device = ''0'', mini_eval = 1,
                 resume = ''old/run1/model_best.pth''\<rparr> ''tboard-parser'' \<and>
   CopyFile ''old/run1/model_best.pth'' ''data/saved/models/exp1/run1/model_best.pth'' \<in>
     set (trace (snd (modernize_exp_dir [''exp1''] sample_ckpts ''data/saved'' False (tb_world clean_stream)))) \<and>
   ''old/run1/model_best.pth'' \<noteq> ''data/saved/models/exp1/run1/model_best.pth''"
  by (simp add: modernize_sample_run)

lemma log_kept_or_backed_up_sample:
  "map_of (files (snd (standardize_exp ''data/saved'' sample_ckpts False ''exp2''
                        (std_world [line_epoch, line_marker, line_took, line_overrun]))))
     ''data/saved/log/exp2/2019-07-01_12-00-00/info.log.backup'' =
       Some \<lparr>text_lines = [line_epoch, line_marker, line_took, line_overrun], tf_events = []\<rparr> \<and>
   map_of (files (snd (standardize_exp ''data/saved'' sample_ckpts False ''exp2''
                        (std_world [line_epoch, line_marker, line_took, line_overrun]))))
     ''data/saved/log/exp2/2019-07-01_12-00-00/info.log'' = None"
proof -
  let ?E2 = "\<lparr>timestamp = Some ''2019-07-01_12-00-00'', epoch = Some 100\<rparr>"
  let ?w = "std_world [line_epoch, line_marker, line_took, line_overrun]"
  let ?R = "standardize_exp ''data/saved'' sample_ckpts False ''exp2'' ?w"
  have e: "sample_ckpts ''exp2'' = Some ?E2" "timestamp ?E2 = Some ''2019-07-01_12-00-00''"
      "epoch ?E2 = Some 100"
    by (simp_all add: sample_ckpts_def)
  have p: "canonical ''data/saved'' ''log'' ''exp2'' ''2019-07-01_12-00-00'' ''info.log'' =
             ''data/saved/log/exp2/2019-07-01_12-00-00/info.log''"
    by (simp add: canonical_def pjoin_def)
  have before: "map_of (files ?w) (canonical ''data/saved'' ''log'' ''exp2'' ''2019-07-01_12-00-00'' ''info.log'') =
                  Some \<lparr>text_lines = [line_epoch, line_marker, line_took, line_overrun], tf_events = []\<rparr>"
    unfolding p by (rule std_world_files(1))
  have gone: "map_of (files (snd ?R)) ''data/saved/log/exp2/2019-07-01_12-00-00/info.log'' = None"
    by (simp add: standardize_sample_run)
  show ?thesis
    using log_kept_or_backed_up [where checkpoints = sample_ckpts and key = "''exp2''"
            and refresh = False and save_dir = "''data/saved''" and w = ?w,
            OF e refl refl refl before prod.collapse [symmetric]] gone
    by (simp add: p)
qed

text \<open>
  Claim C10 at a second run with the refresh flag.  \<open>backed_world\<close> is the tree a first
  run leaves: the backup holds the original log, \<open>info.log\<close> holds the canonical log the
  logger wrote from the generated rows.  The run copies \<open>info.log\<close> over the backup
  before anything else (line 150), so afterwards the backup holds the canonical log of the
  first run and no file holds the original text, although the comment at line 146 says the
  backup is made to preserve the original.
\<close>

theorem refresh_rerun_replaces_backup:
  "map_of (files backed_world) ''data/saved/log/exp2/2019-07-01_12-00-00/info.log.backup'' =
     Some \<lparr>text_lines = [line_epoch, line_marker, line_took, line_overrun], tf_events = []\<rparr> \<and>
   map_of (files (snd (standardize_exp_dir [''exp2''] ''data/saved'' sample_ckpts True backed_world)))
       ''data/saved/log/exp2/2019-07-01_12-00-00/info.log.backup'' =
     Some \<lparr>text_lines =
             [''This log was generated from an existing log for experiemnt 2019-07-01_12-00-00'',
              ''Launching experiment with config:'', ''{'', ''}'',
              line_epoch, line_marker, line_took],
           tf_events = []\<rparr> \<and>
   list_all (\<lambda>(p, d). text_lines d \<noteq> [line_epoch, line_marker, line_took, line_overrun])
     (files (snd (standardize_exp_dir [''exp2''] ''data/saved'' sample_ckpts True backed_world)))"
  by (simp add: std_defs backed_world_def)

end
